theory Spec2Isabelle
  imports Main "HOL-Library.Sublist"
begin

section \<open>Adala skills: \<^verbatim>\<open>adala/skills/base.py\<close>\<close>

text \<open>
  The development embeds \<^verbatim>\<open>BaseSkill\<close> and \<^verbatim>\<open>LLMSkill\<close> of
  \<^verbatim>\<open>adala/skills/base.py\<close>: the validator \<^verbatim>\<open>validate_inputs\<close> that runs when a skill
  is constructed, \<^verbatim>\<open>_get_extra_fields\<close>, \<^verbatim>\<open>__call__\<close>, \<^verbatim>\<open>apply\<close>, the sampling step
  of \<^verbatim>\<open>analyze\<close> and \<^verbatim>\<open>improve\<close>.

  Python exceptions are values of the type \<open>error\<close>; a function that can raise returns
  \<open>error + 'a\<close> with \<open>Inl\<close> for the exception. Python strings are \<open>string\<close>.
\<close>

subsection \<open>Exceptions and values\<close>

datatype error =
    ValueError string
  | KeyError string
  | IndexError int
  | TypeError string
  | RuntimeFailure string

text \<open>
  \<open>ValueError msg\<close>, \<open>KeyError key\<close> and \<open>TypeError msg\<close> are Python's exceptions of
  these names. \<open>IndexError n\<close> is the \<^verbatim>\<open>IndexError\<close> of \<^verbatim>\<open>str.format\<close> for the
  positional argument \<open>n\<close> (``Replacement index n out of range for positional args
  tuple''). \<open>RuntimeFailure\<close> is any exception raised inside a runtime (the inference
  backend).
\<close>

datatype pyval =
    PNone
  | PNaN
  | PStr string
  | PInt int
  | PList "pyval list"

subsection \<open>Python's \<^verbatim>\<open>str.format\<close>\<close>

text \<open>
  \<^verbatim>\<open>validate_inputs\<close> calls \<^verbatim>\<open>self.input_template.format(input=self.input_data_field)\<close>.
  The functions below follow CPython's implementation of \<^verbatim>\<open>str.format\<close>
  (\<^verbatim>\<open>Objects/stringlib/unicode_format.h\<close>): \<^verbatim>\<open>MarkupIterator_next\<close> splits the format string
  into literal text and replacement fields, \<^verbatim>\<open>parse_field\<close> reads one replacement field,
  \<^verbatim>\<open>field_name_split\<close> and \<^verbatim>\<open>get_integer\<close> read the first part of its name, and
  \<^verbatim>\<open>get_field_object\<close> looks the name up. The call has no positional arguments and its
  keyword arguments are strings.
\<close>

text \<open>
  The loop of \<^verbatim>\<open>parse_field\<close> that looks for the end of the field name. The flag is true
  between a \<^verbatim>\<open>[\<close> and the next \<^verbatim>\<open>]\<close>, where every character is skipped. The result is the
  field name, the character that ended it (one of \<^verbatim>\<open>}\<close>, \<^verbatim>\<open>:\<close>, \<^verbatim>\<open>!\<close>) and the rest of the
  string.
\<close>

fun scan_field_name :: "bool \<Rightarrow> string \<Rightarrow> string \<Rightarrow> error + (string \<times> char \<times> string)" where
  "scan_field_name inb acc [] = Inl (ValueError ''expected '}' before end of string'')"
| "scan_field_name inb acc (c # s) =
     (if inb then scan_field_name (c \<noteq> CHR '']'') (acc @ [c]) s
      else if c = CHR ''{'' then Inl (ValueError ''unexpected '{' in field name'')
      else if c = CHR ''['' then scan_field_name True (acc @ [c]) s
      else if c = CHR ''}'' \<or> c = CHR '':'' \<or> c = CHR ''!'' then Inr (acc, c, s)
      else scan_field_name False (acc @ [c]) s)"

text \<open>
  The loop of \<^verbatim>\<open>parse_field\<close> that reads the format specifier: it ends at the \<^verbatim>\<open>}\<close> that
  closes the field, counting nested braces.
\<close>

fun scan_format_spec :: "nat \<Rightarrow> string \<Rightarrow> string \<Rightarrow> error + (string \<times> string)" where
  "scan_format_spec count acc [] = Inl (ValueError ''unmatched '{' in format spec'')"
| "scan_format_spec count acc (c # s) =
     (if c = CHR ''{'' then scan_format_spec (count + 1) (acc @ [c]) s
      else if c = CHR ''}'' then
        (if count - 1 = 0 then Inr (acc, s) else scan_format_spec (count - 1) (acc @ [c]) s)
      else scan_format_spec count (acc @ [c]) s)"

text \<open>A replacement field: its name, its conversion character and its format specifier.\<close>

record replacement_field =
  field_name :: string
  conversion :: "char option"
  format_spec :: string

definition parse_field :: "string \<Rightarrow> error + (replacement_field \<times> string)" where
  "parse_field s =
     (case scan_field_name False [] s of
        Inl e \<Rightarrow> Inl e
      | Inr (nm, c, s1) \<Rightarrow>
          if c = CHR ''}'' then
            Inr (\<lparr>field_name = nm, conversion = None, format_spec = []\<rparr>, s1)
          else if c = CHR ''!'' then
            (case s1 of
               [] \<Rightarrow> Inl (ValueError ''end of string while looking for conversion specifier'')
             | cv # s2 \<Rightarrow>
                 (case s2 of
                    [] \<Rightarrow> Inl (ValueError ''unmatched '{' in format spec'')
                  | d # s3 \<Rightarrow>
                      if d = CHR ''}'' then
                        Inr (\<lparr>field_name = nm, conversion = Some cv, format_spec = []\<rparr>, s3)
                      else if d \<noteq> CHR '':'' then
                        Inl (ValueError ''expected ':' after conversion specifier'')
                      else
                        (case scan_format_spec 1 [] s3 of
                           Inl e \<Rightarrow> Inl e
                         | Inr (spec, s4) \<Rightarrow>
                             Inr (\<lparr>field_name = nm, conversion = Some cv,
                                   format_spec = spec\<rparr>, s4))))
          else
            (case scan_format_spec 1 [] s1 of
               Inl e \<Rightarrow> Inl e
             | Inr (spec, s4) \<Rightarrow>
                 Inr (\<lparr>field_name = nm, conversion = None, format_spec = spec\<rparr>, s4)))"

text \<open>
  \<^verbatim>\<open>get_integer\<close>: the first part of a field name as a decimal number, \<open>None\<close> when it is
  empty or has a character that is not a digit. The accumulator overflows at
  \<^verbatim>\<open>PY_SSIZE_T_MAX\<close>, here that of a 64-bit build.
\<close>

definition PY_SSIZE_T_MAX :: int where
  "PY_SSIZE_T_MAX = 2 ^ 63 - 1"

definition is_decimal :: "char \<Rightarrow> bool" where
  "is_decimal c = (c \<in> set ''0123456789'')"

definition digitval :: "char \<Rightarrow> int" where
  "digitval c = of_char c - of_char (CHR ''0'')"

fun get_integer_loop :: "int \<Rightarrow> string \<Rightarrow> error + int option" where
  "get_integer_loop accumulator [] = Inr (Some accumulator)"
| "get_integer_loop accumulator (c # s) =
     (if \<not> is_decimal c then Inr None
      else if accumulator > (PY_SSIZE_T_MAX - digitval c) div 10 then
        Inl (ValueError ''Too many decimal digits in format string'')
      else get_integer_loop (accumulator * 10 + digitval c) s)"

definition get_integer :: "string \<Rightarrow> error + int option" where
  "get_integer s = (if s = [] then Inr None else get_integer_loop 0 s)"

text \<open>
  \<^verbatim>\<open>field_name_split\<close>: the first part of a field name runs up to the first \<^verbatim>\<open>.\<close> or
  \<^verbatim>\<open>[\<close>; the rest is a chain of attribute and index lookups.
\<close>

definition field_name_split :: "string \<Rightarrow> string \<times> string" where
  "field_name_split nm =
     (takeWhile (\<lambda>c. c \<noteq> CHR ''.'' \<and> c \<noteq> CHR ''['') nm,
      dropWhile (\<lambda>c. c \<noteq> CHR ''.'' \<and> c \<noteq> CHR ''['') nm)"

text \<open>
  What Python does with the string a keyword argument holds once a replacement field has
  found it, in the cases that call into the rest of the interpreter: attribute and index
  lookups on the string, the conversions other than \<^verbatim>\<open>!s\<close>, and a format specifier that is
  not empty. These are not part of the format-string scanner and stay a parameter: the
  function gets the argument's string, the rest of the field name, the conversion and the
  format specifier.
\<close>

type_synonym str_ops = "string \<Rightarrow> string \<Rightarrow> char option \<Rightarrow> string \<Rightarrow> error + string"

text \<open>
  \<^verbatim>\<open>output_markup\<close> for a call without positional arguments: a field whose first part is
  empty or a number indexes the empty tuple of positional arguments, any other first part
  is a key of the keyword arguments. A string found under the key is the field's text when
  the field has no further lookups, no conversion or the conversion \<^verbatim>\<open>!s\<close>, and an empty
  format specifier.
\<close>

definition render_field :: "str_ops \<Rightarrow> (string \<times> string) list \<Rightarrow> replacement_field \<Rightarrow> error + string" where
  "render_field ops kwargs fld =
     (let (first, rest) = field_name_split (field_name fld) in
      case get_integer first of
        Inl e \<Rightarrow> Inl e
      | Inr (Some i) \<Rightarrow> Inl (IndexError i)
      | Inr None \<Rightarrow>
          if first = [] then Inl (IndexError 0)
          else
            (case map_of kwargs first of
               None \<Rightarrow> Inl (KeyError first)
             | Some v \<Rightarrow>
                 if rest = [] \<and> (conversion fld = None \<or> conversion fld = Some (CHR ''s''))
                    \<and> format_spec fld = []
                 then Inr v
                 else ops v rest (conversion fld) (format_spec fld)))"

text \<open>Appending to the output built so far, when the rest of the string formats.\<close>

definition emit :: "string \<Rightarrow> error + string \<Rightarrow> error + string" where
  "emit out r = (case r of Inl e \<Rightarrow> Inl e | Inr t \<Rightarrow> Inr (out @ t))"

lemma scan_format_spec_length:
  "scan_format_spec n acc s = Inr (spec, r) \<Longrightarrow> length r < length s"
  by (induction n acc s rule: scan_format_spec.induct) (auto split: if_splits)

lemma scan_field_name_length:
  "scan_field_name inb acc s = Inr (nm, c, r) \<Longrightarrow> length r < length s"
  by (induction inb acc s rule: scan_field_name.induct) (auto split: if_splits)

lemma parse_field_length:
  "parse_field s = Inr (fld, r) \<Longrightarrow> length r < length s"
  unfolding parse_field_def
  by (auto split: sum.splits prod.splits if_splits list.splits
           dest!: scan_field_name_length scan_format_spec_length)

text \<open>
  \<^verbatim>\<open>build_string\<close> over \<^verbatim>\<open>MarkupIterator_next\<close>: literal text is copied, a doubled brace
  gives one brace, a single \<^verbatim>\<open>{\<close> starts a replacement field, and the first error ends the
  call.
\<close>

function str_format :: "str_ops \<Rightarrow> (string \<times> string) list \<Rightarrow> string \<Rightarrow> error + string" where
  "str_format ops kwargs [] = Inr []"
| "str_format ops kwargs (c # s) =
     (if c = CHR ''}'' then
        (case s of
           [] \<Rightarrow> Inl (ValueError ''Single '}' encountered in format string'')
         | d # s' \<Rightarrow>
             if d = CHR ''}'' then emit [c] (str_format ops kwargs s')
             else Inl (ValueError ''Single '}' encountered in format string''))
      else if c = CHR ''{'' then
        (case s of
           [] \<Rightarrow> Inl (ValueError ''Single '{' encountered in format string'')
         | d # s' \<Rightarrow>
             if d = CHR ''{'' then emit [c] (str_format ops kwargs s')
             else
               (case parse_field s of
                  Inl e \<Rightarrow> Inl e
                | Inr (fld, r) \<Rightarrow>
                    (case render_field ops kwargs fld of
                       Inl e \<Rightarrow> Inl e
                     | Inr v \<Rightarrow> emit v (str_format ops kwargs r))))
      else emit [c] (str_format ops kwargs s))"
  by pat_completeness auto
termination
  by (relation "measure (\<lambda>(ops, kwargs, s). length s)")
     (auto dest: parse_field_length)


subsection \<open>The skill and its validator\<close>

text \<open>
  The fields of \<^verbatim>\<open>BaseSkill\<close>, with their declared types (\<^verbatim>\<open>Optional[str]\<close> is
  \<open>string option\<close>). \<open>subclass_fields\<close> are the fields a subclass declares beside the
  seven of \<^verbatim>\<open>BaseSkill\<close>, in declaration order, with their values (the \<^verbatim>\<open>labels\<close> of a
  classification skill, for example).
\<close>

record BaseSkill =
  name :: string
  instructions :: string
  description :: "string option"
  input_template :: "string option"
  input_data_field :: "string option"
  output_template :: "string option"
  prediction_field :: "string option"
  subclass_fields :: "(string \<times> pyval) list"

text \<open>The field values of a skill built with no argument: the declared defaults.\<close>

definition BaseSkill_defaults :: BaseSkill where
  "BaseSkill_defaults =
     \<lparr>name = [], instructions = [], description = Some [],
      input_template = Some ''Input: {{{{{input}}}}}'',
      input_data_field = None,
      output_template = Some ''Output: {{gen 'predictions'}}'',
      prediction_field = Some ''predictions'',
      subclass_fields = []\<rparr>"

text \<open>Python's \<^verbatim>\<open>sub in s\<close> on strings.\<close>

fun str_contains :: "string \<Rightarrow> string \<Rightarrow> bool" where
  "str_contains sub [] = (sub = [])"
| "str_contains sub (c # s) = (prefix sub (c # s) \<or> str_contains sub s)"

text \<open>The raw-input placeholder that \<^verbatim>\<open>validate_inputs\<close> looks for.\<close>

definition marker :: string where
  "marker = ''{{{{{input}}}}}''"

text \<open>The \<^verbatim>\<open>ValueError\<close> that \<^verbatim>\<open>validate_inputs\<close> raises itself.\<close>

definition input_data_field_error :: "BaseSkill \<Rightarrow> error" where
  "input_data_field_error self =
     ValueError (''`input_data_field` is not provided for skill '' @ name self)"

text \<open>
  \<^verbatim>\<open>validate_inputs\<close> is a pydantic model validator of mode \<^verbatim>\<open>after\<close>: constructing a skill
  sets the fields from the arguments and the defaults and then runs it, so a skill exists
  only as a result \<open>Inr\<close> of this function, applied to the field values. The membership
  test on a template that is \<^verbatim>\<open>None\<close> raises \<^verbatim>\<open>TypeError\<close>. The message that
  \<^verbatim>\<open>print_error\<close> prints before the \<^verbatim>\<open>ValueError\<close> is not modelled.
\<close>

definition validate_inputs :: "str_ops \<Rightarrow> BaseSkill \<Rightarrow> error + BaseSkill" where
  "validate_inputs ops self =
     (case input_template self of
        None \<Rightarrow> Inl (TypeError ''argument of type 'NoneType' is not iterable'')
      | Some t \<Rightarrow>
          if str_contains marker t then
            (case input_data_field self of
               None \<Rightarrow> Inl (input_data_field_error self)
             | Some f \<Rightarrow>
                 (case str_format ops [(''input'', f)] t of
                    Inl e \<Rightarrow> Inl e
                  | Inr r \<Rightarrow> Inr (self\<lparr>input_template := Some r\<rparr>)))
          else Inr self)"

text \<open>
  A stand-in for the string operations of the interpreter in closed examples whose
  templates never reach them.
\<close>

definition no_str_ops :: str_ops where
  "no_str_ops v rest conv spec = Inl (TypeError ''not modelled'')"

text \<open>The default skill with another input template and input data field.\<close>

definition skill_with :: "string \<Rightarrow> string option \<Rightarrow> BaseSkill" where
  "skill_with t f = BaseSkill_defaults\<lparr>input_template := Some t, input_data_field := f\<rparr>"

subsection \<open>Templates as pieces\<close>

text \<open>
  A grammar of input templates, for the statements about \<^verbatim>\<open>str.format\<close>: a template is a
  sequence of pieces, each a character of literal text, an escaped brace \<^verbatim>\<open>{{\<close> or
  \<^verbatim>\<open>}}\<close>, or a replacement field \<^verbatim>\<open>{name}\<close>. The placeholder \<^verbatim>\<open>{{{{{input}}}}}\<close> is the
  five pieces \<open>[Open, Open, Field ''input'', Close, Close]\<close>.
\<close>

datatype piece = Text char | Open | Close | Field string

fun piece_text :: "piece \<Rightarrow> string" where
  "piece_text (Text c) = [c]"
| "piece_text Open = ''{{''"
| "piece_text Close = ''}}''"
| "piece_text (Field nm) = ''{'' @ nm @ ''}''"

definition template_of :: "piece list \<Rightarrow> string" where
  "template_of ps = concat (map piece_text ps)"

text \<open>
  A plain piece: literal text is not a brace, and a field name has none of the characters
  that the field parser reads as syntax.
\<close>

fun plain_piece :: "piece \<Rightarrow> bool" where
  "plain_piece (Text c) = (c \<noteq> CHR ''{'' \<and> c \<noteq> CHR ''}'')"
| "plain_piece Open = True"
| "plain_piece Close = True"
| "plain_piece (Field nm) = (set nm \<inter> set ''{}[].!:'' = {})"

text \<open>Every replacement field among the pieces is \<^verbatim>\<open>{input}\<close>.\<close>

fun input_piece :: "piece \<Rightarrow> bool" where
  "input_piece (Field nm) = (nm = ''input'')"
| "input_piece p = True"

text \<open>What a piece stands for once formatted with \<^verbatim>\<open>input=f\<close>.\<close>

fun piece_value :: "string \<Rightarrow> piece \<Rightarrow> string" where
  "piece_value f (Text c) = [c]"
| "piece_value f Open = ''{''"
| "piece_value f Close = ''}''"
| "piece_value f (Field nm) = f"

text \<open>
  The exception of a field whose plain name is not a keyword argument: \<^verbatim>\<open>IndexError\<close> for
  an empty or numeric name (there are no positional arguments), \<^verbatim>\<open>KeyError\<close> otherwise.
\<close>

definition lookup_error :: "string \<Rightarrow> error" where
  "lookup_error nm =
     (case get_integer nm of
        Inl e \<Rightarrow> e
      | Inr (Some i) \<Rightarrow> IndexError i
      | Inr None \<Rightarrow> if nm = [] then IndexError 0 else KeyError nm)"

fun format_pieces :: "string \<Rightarrow> piece list \<Rightarrow> error + string" where
  "format_pieces f [] = Inr []"
| "format_pieces f (Text c # ps) = emit [c] (format_pieces f ps)"
| "format_pieces f (Open # ps) = emit ''{'' (format_pieces f ps)"
| "format_pieces f (Close # ps) = emit ''}'' (format_pieces f ps)"
| "format_pieces f (Field nm # ps) =
     (if nm = ''input'' then emit f (format_pieces f ps) else Inl (lookup_error nm))"

text \<open>
  Fewer than five \<^verbatim>\<open>{\<close> in a row in a string, and fewer than five escaped \<^verbatim>\<open>{{\<close> in a row
  among pieces; the number counts the ones just read.
\<close>

fun short_runs :: "nat \<Rightarrow> string \<Rightarrow> bool" where
  "short_runs k [] = True"
| "short_runs k (c # s) =
     (if c = CHR ''{'' then k < 4 \<and> short_runs (k + 1) s else short_runs 0 s)"

fun short_opens :: "nat \<Rightarrow> piece list \<Rightarrow> bool" where
  "short_opens k [] = True"
| "short_opens k (Open # ps) = (k < 4 \<and> short_opens (k + 1) ps)"
| "short_opens k (p # ps) = short_opens 0 ps"

text \<open>
  Python's \<^verbatim>\<open>s.replace(old, new)\<close>: the reading of ``the marker is substituted'' as a
  replacement of the marker alone, to compare with what \<^verbatim>\<open>validate_inputs\<close> stores.
\<close>

function str_replace :: "string \<Rightarrow> string \<Rightarrow> string \<Rightarrow> string" where
  "str_replace old new [] = (if old = [] then new else [])"
| "str_replace old new (c # s) =
     (if old = [] then new @ c # str_replace old new s
      else if prefix old (c # s) then new @ str_replace old new (drop (length old) (c # s))
      else c # str_replace old new s)"
  by pat_completeness auto
termination
  by (relation "measure (\<lambda>(old, new, s). length s)") (auto simp: neq_Nil_conv)

text \<open>Example templates, as pieces.\<close>

definition pieces_default :: "piece list" where
  "pieces_default =
     [Text (CHR ''I''), Text (CHR ''n''), Text (CHR ''p''), Text (CHR ''u''), Text (CHR ''t''),
      Text (CHR '':''), Text (CHR '' ''), Open, Open, Field ''input'', Close, Close]"




subsection \<open>Data frames\<close>

text \<open>
  \<^verbatim>\<open>InternalDataFrame\<close> is pandas' \<^verbatim>\<open>DataFrame\<close>. A frame has its column labels, its row
  labels (the index) and, for every column in order, the values of its rows in order.
  The functions below are the pandas operations the skill uses, for frames whose column
  labels are strings. Column labels may repeat.
\<close>

record InternalDataFrame =
  columns :: "string list"
  index :: "int list"
  data :: "pyval list list"

text \<open>Every column has its values, one for each row.\<close>

definition wf_frame :: "InternalDataFrame \<Rightarrow> bool" where
  "wf_frame df =
     (length (data df) = length (columns df)
      \<and> list_all (\<lambda>col. length col = length (index df)) (data df))"

text \<open>
  Two things pandas does stay parameters. \<open>maybe_promote\<close> gives the values of a series
  once its dtype has been promoted to hold \<^verbatim>\<open>NaN\<close> (an integer column becomes a float
  column). \<open>setitem_repeated\<close> is \<^verbatim>\<open>df[keys] = value\<close> for a frame \<^verbatim>\<open>value\<close> in the cases
  that \<^verbatim>\<open>check_key_length\<close> lets through although labels repeat among the columns of the
  value, or a key stands for several columns of \<^verbatim>\<open>df\<close>.
\<close>

record pandas_ops =
  maybe_promote :: "pyval list \<Rightarrow> pyval list"
  setitem_repeated ::
    "InternalDataFrame \<Rightarrow> string list \<Rightarrow> InternalDataFrame \<Rightarrow> error + InternalDataFrame"

text \<open>\<^verbatim>\<open>InternalDataFrame(columns=cols)\<close>: the columns, and no row.\<close>

definition DataFrame_of_columns :: "string list \<Rightarrow> InternalDataFrame" where
  "DataFrame_of_columns cols = \<lparr>columns = cols, index = [], data = map (\<lambda>c. []) cols\<rparr>"

text \<open>
  \<^verbatim>\<open>df.rename(columns={old: new}, inplace=True)\<close>: every label equal to the key gets the
  new label. The key is the prediction field, which may be \<^verbatim>\<open>None\<close> and then equals no
  label.
\<close>

definition rename_columns :: "string option \<Rightarrow> string \<Rightarrow> InternalDataFrame \<Rightarrow> InternalDataFrame" where
  "rename_columns old new df =
     df\<lparr>columns := map (\<lambda>c. if Some c = old then new else c) (columns df)\<rparr>"

text \<open>The first position of a label among the labels.\<close>

fun position :: "'a \<Rightarrow> 'a list \<Rightarrow> nat option" where
  "position x [] = None"
| "position x (y # ys) = (if x = y then Some 0 else map_option Suc (position x ys))"

text \<open>The values of the first column labelled \<open>c\<close>.\<close>

definition column_of :: "InternalDataFrame \<Rightarrow> string \<Rightarrow> pyval list option" where
  "column_of df c = map_option (\<lambda>j. data df ! j) (position c (columns df))"

text \<open>
  \<^verbatim>\<open>df[keys]\<close> for a list of labels: for every key in order, every column with this label
  (\<^verbatim>\<open>KeyError\<close> when a key is no label of the frame).
\<close>

definition matching_columns :: "InternalDataFrame \<Rightarrow> string \<Rightarrow> (string \<times> pyval list) list" where
  "matching_columns df k = filter (\<lambda>(c, col). c = k) (zip (columns df) (data df))"

definition getitem_columns :: "InternalDataFrame \<Rightarrow> string list \<Rightarrow> error + InternalDataFrame" where
  "getitem_columns df keys =
     (case filter (\<lambda>k. k \<notin> set (columns df)) keys of
        k # missing \<Rightarrow> Inl (KeyError k)
      | [] \<Rightarrow>
          Inr \<lparr>columns = map fst (concat (map (matching_columns df) keys)),
               index = index df,
               data = map snd (concat (map (matching_columns df) keys))\<rparr>)"

text \<open>A \<^verbatim>\<open>Series\<close>: values with their row labels.\<close>

type_synonym Series = "(int \<times> pyval) list"

text \<open>
  \<^verbatim>\<open>df[k] = series\<close> for a label \<open>k\<close> that stands for at most one column, as
  \<^verbatim>\<open>DataFrame._set_item\<close> does it. A frame without rows takes the rows of a series that has
  some (\<^verbatim>\<open>_ensure_valid_index\<close>). The series is aligned with the index of the frame
  (\<^verbatim>\<open>_reindex_for_setitem\<close>): taken as it is when the labels agree, else looked up label by
  label, with \<^verbatim>\<open>NaN\<close> for a label it does not have, which promotes the dtype of its
  values; a series with repeated labels cannot be aligned. The values replace the column
  \<open>k\<close> where it stands, or become a new last column.
\<close>

definition ensure_valid_index :: "InternalDataFrame \<Rightarrow> Series \<Rightarrow> InternalDataFrame" where
  "ensure_valid_index df series =
     (if index df = [] \<and> series \<noteq> [] then
        df\<lparr>index := map fst series,
           data := map (\<lambda>col. replicate (length series) PNaN) (data df)\<rparr>
      else df)"

definition reindex_for_setitem :: "pandas_ops \<Rightarrow> Series \<Rightarrow> InternalDataFrame \<Rightarrow> error + pyval list" where
  "reindex_for_setitem pd series df =
     (if map fst series = index df \<or> index df = [] then Inr (map snd series)
      else if \<not> distinct (map fst series) then
        Inl (ValueError ''cannot reindex on an axis with duplicate labels'')
      else
        (let vals = (if set (index df) \<subseteq> set (map fst series) then map snd series
                     else maybe_promote pd (map snd series))
         in Inr (map (\<lambda>l. case map_of (zip (map fst series) vals) l of
                              None \<Rightarrow> PNaN
                            | Some v \<Rightarrow> v) (index df))))"

definition set_item_mgr :: "InternalDataFrame \<Rightarrow> string \<Rightarrow> pyval list \<Rightarrow> InternalDataFrame" where
  "set_item_mgr df k vals =
     (case position k (columns df) of
        None \<Rightarrow> df\<lparr>columns := columns df @ [k], data := data df @ [vals]\<rparr>
      | Some j \<Rightarrow> df\<lparr>data := (data df)[j := vals]\<rparr>)"

definition set_item ::
  "pandas_ops \<Rightarrow> InternalDataFrame \<Rightarrow> string \<Rightarrow> Series \<Rightarrow> error + InternalDataFrame" where
  "set_item pd df k series =
     (let df1 = ensure_valid_index df series in
      case reindex_for_setitem pd series df1 of
        Inl e \<Rightarrow> Inl e
      | Inr vals \<Rightarrow> Inr (set_item_mgr df1 k vals))"

text \<open>
  \<^verbatim>\<open>df[keys] = value\<close> for a frame \<^verbatim>\<open>value\<close>, as \<^verbatim>\<open>DataFrame._setitem_array\<close> does it.
  \<^verbatim>\<open>check_key_length\<close> compares the number of columns of the value with the number of keys
  when the labels of \<^verbatim>\<open>df\<close> are unique, and else with the length of
  \<^verbatim>\<open>df.columns.get_indexer_non_unique(keys)[0]\<close>, which has an entry for every column a key
  stands for and one for a key that stands for none; a difference raises \<^verbatim>\<open>ValueError\<close>.
  Then \<^verbatim>\<open>for k1, k2 in zip(keys, value.columns): df[k1] = value[k2]\<close>, where \<^verbatim>\<open>value[k2]\<close>
  is the series of a column when the labels of the value are unique.
\<close>

definition indexer_length :: "string list \<Rightarrow> string list \<Rightarrow> nat" where
  "indexer_length cols keys = sum_list (map (\<lambda>k. max 1 (count_list cols k)) keys)"

definition check_key_length :: "string list \<Rightarrow> string list \<Rightarrow> InternalDataFrame \<Rightarrow> bool" where
  "check_key_length cols keys v =
     (if distinct cols then length (columns v) = length keys
      else indexer_length cols keys = length (columns v))"

definition frame_series :: "InternalDataFrame \<Rightarrow> Series list" where
  "frame_series v = map (\<lambda>col. zip (index v) col) (data v)"

fun setitem_loop ::
  "pandas_ops \<Rightarrow> InternalDataFrame \<Rightarrow> (string \<times> Series) list \<Rightarrow> error + InternalDataFrame" where
  "setitem_loop pd df [] = Inr df"
| "setitem_loop pd df ((k, series) # rest) =
     (case set_item pd df k series of
        Inl e \<Rightarrow> Inl e
      | Inr df' \<Rightarrow> setitem_loop pd df' rest)"

definition setitem_columns ::
  "pandas_ops \<Rightarrow> InternalDataFrame \<Rightarrow> string list \<Rightarrow> InternalDataFrame \<Rightarrow>
     error + InternalDataFrame" where
  "setitem_columns pd df keys v =
     (if \<not> check_key_length (columns df) keys v then
        Inl (ValueError ''Columns must be same length as key'')
      else if distinct (columns v) \<and> list_all (\<lambda>k. count_list (columns df) k \<le> 1) keys then
        setitem_loop pd df (zip keys (frame_series v))
      else setitem_repeated pd df keys v)"

text \<open>
  \<^verbatim>\<open>df.sample(n=n)\<close>: \<open>n\<close> rows drawn without replacement, with their labels. pandas takes
  the rows at the first \<open>n\<close> positions of a random permutation of all positions
  (\<^verbatim>\<open>random_state.choice(len, size=n, replace=False)\<close>); the permutation drawn for a frame
  of \<open>m\<close> rows is the parameter \<open>permutation m\<close>.
\<close>

definition take_rows :: "InternalDataFrame \<Rightarrow> nat list \<Rightarrow> InternalDataFrame" where
  "take_rows df locs =
     df\<lparr>index := map (\<lambda>i. index df ! i) locs,
        data := map (\<lambda>col. map (\<lambda>i. col ! i) locs) (data df)\<rparr>"

definition DataFrame_sample ::
  "(nat \<Rightarrow> nat list) \<Rightarrow> nat \<Rightarrow> InternalDataFrame \<Rightarrow> error + InternalDataFrame" where
  "DataFrame_sample permutation n df =
     (if n > length (index df) then
        Inl (ValueError (''Cannot take a larger sample than population when ''
          @ [CHR 0x27] @ ''replace=False'' @ [CHR 0x27]))
      else Inr (take_rows df (take n (permutation (length (index df))))))"

subsection \<open>Extra fields\<close>

text \<open>
  \<^verbatim>\<open>_get_extra_fields\<close> is \<^verbatim>\<open>self.model_dump(exclude=system_fields)\<close>. pydantic's
  \<^verbatim>\<open>model_dump\<close> gives a dictionary of all fields of the model in declaration order, those
  of \<^verbatim>\<open>BaseSkill\<close> first; \<^verbatim>\<open>exclude\<close> leaves out the keys of the given set. A dictionary is
  a list of keys with their values, in order.
\<close>

type_synonym pydict = "(string \<times> pyval) list"

definition system_fields :: "string set" where
  "system_fields =
     {''name'', ''description'', ''input_template'', ''output_template'', ''instructions'',
      ''input_data_field'', ''prediction_field''}"

definition optional_str :: "string option \<Rightarrow> pyval" where
  "optional_str v = (case v of None \<Rightarrow> PNone | Some s \<Rightarrow> PStr s)"

definition model_dump :: "BaseSkill \<Rightarrow> pydict" where
  "model_dump self =
     [(''name'', PStr (name self)),
      (''instructions'', PStr (instructions self)),
      (''description'', optional_str (description self)),
      (''input_template'', optional_str (input_template self)),
      (''input_data_field'', optional_str (input_data_field self)),
      (''output_template'', optional_str (output_template self)),
      (''prediction_field'', optional_str (prediction_field self))]
     @ subclass_fields self"

definition model_dump_exclude :: "string set \<Rightarrow> BaseSkill \<Rightarrow> pydict" where
  "model_dump_exclude exclude self = filter (\<lambda>(k, v). k \<notin> exclude) (model_dump self)"

definition get_extra_fields :: "BaseSkill \<Rightarrow> pydict" where
  "get_extra_fields self = model_dump_exclude system_fields self"

text \<open>A classification skill: \<^verbatim>\<open>labels\<close> is the field its class adds.\<close>

definition sentiment_skill :: BaseSkill where
  "sentiment_skill =
     \<lparr>name = ''sentiment'', instructions = ''Label the text.'', description = Some [],
      input_template = Some ''Input: {{text}}'',
      input_data_field = Some ''text'',
      output_template = Some ''Output: {{gen 'predictions'}}'',
      prediction_field = Some ''predictions'',
      subclass_fields = [(''labels'', PList [PStr ''pos'', PStr ''neg''])]\<rparr>"

subsection \<open>Runtimes and \<^verbatim>\<open>improve\<close>\<close>

text \<open>
  Data frames live in a store: an address stands for a Python object, and two names alias
  when they hold the same address.
\<close>

type_synonym addr = nat

type_synonym store = "addr \<Rightarrow> InternalDataFrame"

text \<open>
  A runtime is the two methods the skill calls. \<^verbatim>\<open>process_batch\<close> gets the store, the
  address of the batch, the input template, the output template, the instructions and the
  extra fields; it returns the address of its result, or an exception, and the store as it
  has left it. \<^verbatim>\<open>process_record\<close> gets a record, instructions, the input template, the
  output template and the extra fields, and returns the generated strings by name. Both
  are parameters of the development: any function is a runtime.
\<close>

record Runtime =
  process_batch ::
    "store \<Rightarrow> addr \<Rightarrow> string option \<Rightarrow> string option \<Rightarrow> string \<Rightarrow> pydict \<Rightarrow>
       (error + addr) \<times> store"
  process_record ::
    "pydict \<Rightarrow> string \<Rightarrow> string \<Rightarrow> string \<Rightarrow> pydict \<Rightarrow> error + (string \<times> string) list"

definition newline :: string where
  "newline = [CHR 0x0A]"

text \<open>The three templates of the call that \<^verbatim>\<open>improve\<close> makes.\<close>

definition improve_instructions :: string where
  "improve_instructions =
     ''{{#system~}}'' @ newline
     @ ''LLM prompt was created by concatenating instructions with text input:'' @ newline @ newline
     @ ''Prediction = LLM(Input, Instructions)'' @ newline @ newline
     @ ''We expect the prediction to be equal to the ground truth.'' @ newline
     @ ''Your task is to analyze errors made by old instructions ''
     @ ''and craft new instructions for the LLM.'' @ newline
     @ ''Follow best practices for LLM prompt engineering.'' @ newline
     @ ''Include 2-3 examples at the end of your response to demonstrate how the new instruction would be applied.'' @ newline
     @ ''Use the following format for your examples:'' @ newline
     @ ''Input: ...'' @ newline
     @ ''Output: ...'' @ newline @ newline
     @ ''{{~/system}}'' @ newline"

definition improve_input_template :: "BaseSkill \<Rightarrow> string" where
  "improve_input_template self =
     ''{{#user~}}'' @ newline
     @ ''Old instructions: '' @ instructions self @ newline @ newline
     @ ''Errors:'' @ newline @ ''{{error_analysis}}'' @ newline
     @ ''New instruction:'' @ newline
     @ ''{{~/user}}''"

definition improve_output_template :: string where
  "improve_output_template = ''{{#assistant~}}{{gen 'new_instruction'}}{{~/assistant}}''"

text \<open>
  \<^verbatim>\<open>improve\<close> returns nothing and changes \<^verbatim>\<open>self\<close>: the model returns how the call ended
  (\<open>Inr ()\<close>, or the exception) together with the skill as the call leaves it. The
  subscript \<^verbatim>\<open>result['new_instruction']\<close> raises \<^verbatim>\<open>KeyError\<close> when the runtime gave no such
  output.
\<close>

definition improve :: "BaseSkill \<Rightarrow> string \<Rightarrow> Runtime \<Rightarrow> (error + unit) \<times> BaseSkill" where
  "improve self error_analysis runtime =
     (case process_record runtime [(''error_analysis'', PStr error_analysis)]
             improve_instructions (improve_input_template self) improve_output_template
             (get_extra_fields self) of
        Inl e \<Rightarrow> (Inl e, self)
      | Inr result \<Rightarrow>
          (case map_of result ''new_instruction'' of
             None \<Rightarrow> (Inl (KeyError ''new_instruction''), self)
           | Some new_instruction \<Rightarrow> (Inr (), self\<lparr>instructions := new_instruction\<rparr>)))"

text \<open>Two runtimes for examples: one that answers, one whose backend is down.\<close>

definition answering_runtime :: "Runtime" where
  "answering_runtime =
     \<lparr>process_batch = (\<lambda>st batch it ot ins extra. (Inr batch, st)),
      process_record = (\<lambda>record ins it ot extra. Inr [(''new_instruction'', ''Answer pos or neg.'')])\<rparr>"

definition failing_runtime :: "Runtime" where
  "failing_runtime =
     \<lparr>process_batch = (\<lambda>st batch it ot ins extra. (Inl (RuntimeFailure ''backend down''), st)),
      process_record = (\<lambda>record ins it ot extra. Inl (RuntimeFailure ''backend down''))\<rparr>"

subsection \<open>\<^verbatim>\<open>__call__\<close>, \<^verbatim>\<open>apply\<close> and the sampling step of \<^verbatim>\<open>analyze\<close>\<close>

text \<open>
  \<^verbatim>\<open>__call__\<close> on the batch at address \<open>input\<close>. The frame the runtime returns is renamed
  in place, so the store changes at its address; \<^verbatim>\<open>input.copy()\<close> is a new object, which
  is returned as a value. The third parameter of the method, the dataset, is not used by
  its body.
\<close>

definition skill_call ::
  "pandas_ops \<Rightarrow> BaseSkill \<Rightarrow> store \<Rightarrow> addr \<Rightarrow> Runtime \<Rightarrow>
     (error + InternalDataFrame) \<times> store" where
  "skill_call pd self st input runtime =
     (case process_batch runtime st input (input_template self) (output_template self)
             (instructions self) (get_extra_fields self) of
        (Inl e, st1) \<Rightarrow> (Inl e, st1)
      | (Inr runtime_predictions, st1) \<Rightarrow>
          (let st2 = st1(runtime_predictions :=
                       rename_columns (prediction_field self) (name self)
                         (st1 runtime_predictions));
               output = st2 input
           in case getitem_columns (st2 runtime_predictions)
                     (columns (st2 runtime_predictions)) of
                Inl e \<Rightarrow> (Inl e, st2)
              | Inr v \<Rightarrow>
                  (case setitem_columns pd output (columns (st2 runtime_predictions)) v of
                     Inl e \<Rightarrow> (Inl e, st2)
                   | Inr out \<Rightarrow> (Inr out, st2))))"

text \<open>
  A dataset: the frame it holds and the batches its iterator yields, as addresses.
  \<^verbatim>\<open>DataFrameDataset\<close> is not among the sources; \<^verbatim>\<open>apply\<close> builds it from a frame with
  \<^verbatim>\<open>DataFrameDataset(df=dataset)\<close>, and how it cuts the frame into batches is a parameter.
\<close>

record Dataset =
  df :: addr
  batch_iterator :: "addr list"

definition DataFrameDataset :: "addr list \<Rightarrow> addr \<Rightarrow> Dataset" where
  "DataFrameDataset batches frame = \<lparr>df = frame, batch_iterator = batches\<rparr>"

text \<open>The loop of \<^verbatim>\<open>apply\<close> over the batches: the predictions of each, in order.\<close>

fun apply_batches ::
  "pandas_ops \<Rightarrow> BaseSkill \<Rightarrow> Runtime \<Rightarrow> store \<Rightarrow> addr list \<Rightarrow>
     (error + InternalDataFrame list) \<times> store" where
  "apply_batches pd self runtime st [] = (Inr [], st)"
| "apply_batches pd self runtime st (batch # batches) =
     (case skill_call pd self st batch runtime of
        (Inl e, st1) \<Rightarrow> (Inl e, st1)
      | (Inr runtime_predictions, st1) \<Rightarrow>
          (case apply_batches pd self runtime st1 batches of
             (Inl e, st2) \<Rightarrow> (Inl e, st2)
           | (Inr predictions, st2) \<Rightarrow> (Inr (runtime_predictions # predictions), st2)))"

text \<open>
  \<^verbatim>\<open>LLMSkill.apply\<close> on a dataset. \<^verbatim>\<open>InternalDataFrameConcat\<close> (pandas' \<^verbatim>\<open>concat\<close>) is a
  parameter. \<open>apply_frame\<close> is the call with a frame in place of the dataset.
\<close>

definition apply_skill ::
  "(InternalDataFrame list \<Rightarrow> error + InternalDataFrame) \<Rightarrow> pandas_ops \<Rightarrow> BaseSkill \<Rightarrow> Dataset \<Rightarrow>
     Runtime \<Rightarrow> store \<Rightarrow> (error + InternalDataFrame) \<times> store" where
  "apply_skill InternalDataFrameConcat pd self dataset runtime st =
     (case apply_batches pd self runtime st (batch_iterator dataset) of
        (Inl e, st1) \<Rightarrow> (Inl e, st1)
      | (Inr predictions, st1) \<Rightarrow>
          if predictions \<noteq> [] then (InternalDataFrameConcat predictions, st1)
          else (Inr (DataFrame_of_columns (columns (st1 (df dataset)) @ [name self])), st1))"

definition apply_frame ::
  "(InternalDataFrame list \<Rightarrow> error + InternalDataFrame) \<Rightarrow> pandas_ops \<Rightarrow> addr list \<Rightarrow> BaseSkill \<Rightarrow>
     addr \<Rightarrow> Runtime \<Rightarrow> store \<Rightarrow> (error + InternalDataFrame) \<times> store" where
  "apply_frame InternalDataFrameConcat pd batches self frame runtime st =
     apply_skill InternalDataFrameConcat pd self (DataFrameDataset batches frame) runtime st"

text \<open>
  The first step of \<^verbatim>\<open>analyze\<close>:
  \<^verbatim>\<open>errors = errors.sample(n=min(MAX_ERRORS, errors.shape[0]))\<close>. \<open>sample_errors\<close> is the
  statement for any bound; \<^verbatim>\<open>analyze\<close> has the bound \<^verbatim>\<open>MAX_ERRORS = 3\<close>.
\<close>

definition MAX_ERRORS :: nat where
  "MAX_ERRORS = 3"

definition sample_errors ::
  "nat \<Rightarrow> (nat \<Rightarrow> nat list) \<Rightarrow> InternalDataFrame \<Rightarrow> error + InternalDataFrame" where
  "sample_errors max_errors permutation errors =
     DataFrame_sample permutation (min max_errors (length (index errors))) errors"

definition analyze_sample ::
  "(nat \<Rightarrow> nat list) \<Rightarrow> InternalDataFrame \<Rightarrow> error + InternalDataFrame" where
  "analyze_sample permutation errors = sample_errors MAX_ERRORS permutation errors"

text \<open>Frames and stores for examples.\<close>

definition no_frame :: InternalDataFrame where
  "no_frame = \<lparr>columns = [], index = [], data = []\<rparr>"

definition text_frame :: InternalDataFrame where
  "text_frame =
     \<lparr>columns = [''text''], index = [0, 1],
      data = [[PStr ''great!'', PStr ''awful'']]\<rparr>"

definition predictions_frame :: InternalDataFrame where
  "predictions_frame =
     \<lparr>columns = [''predictions''], index = [0, 1],
      data = [[PStr ''pos'', PStr ''neg'']]\<rparr>"

definition labelled_frame :: InternalDataFrame where
  "labelled_frame =
     \<lparr>columns = [''text'', ''predictions''], index = [0, 1],
      data = [[PStr ''great!'', PStr ''awful''], [PStr ''pos'', PStr ''neg'']]\<rparr>"

definition errors_frame :: InternalDataFrame where
  "errors_frame =
     \<lparr>columns = [''sentiment'', ''ground_truth''], index = [4, 7],
      data = [[PStr ''pos'', PStr ''neg''], [PStr ''neg'', PStr ''pos'']]\<rparr>"

definition no_errors_frame :: InternalDataFrame where
  "no_errors_frame = \<lparr>columns = [''sentiment'', ''ground_truth''], index = [], data = [[], []]\<rparr>"

text \<open>Stores with one frame, at address 0.\<close>

definition text_store :: store where
  "text_store = (\<lambda>a. no_frame)(0 := text_frame)"

definition labelled_store :: store where
  "labelled_store = (\<lambda>a. no_frame)(0 := labelled_frame)"

text \<open>A batch that holds predictions of an earlier call.\<close>

definition stale_frame :: InternalDataFrame where
  "stale_frame =
     \<lparr>columns = [''text'', ''sentiment''], index = [0, 1],
      data = [[PStr ''great!'', PStr ''awful''], [PStr ''neg'', PStr ''neg'']]\<rparr>"

definition stale_store :: store where
  "stale_store = (\<lambda>a. no_frame)(0 := stale_frame)"

text \<open>A permutation the random state can draw: the positions from the last to the first.\<close>

definition reversed :: "nat \<Rightarrow> nat list" where
  "reversed m = rev [0..<m]"

text \<open>
  Stand-ins for \<^verbatim>\<open>InternalDataFrameConcat\<close> and for the pandas parameters in closed
  examples that never reach them.
\<close>

definition no_pandas_ops :: pandas_ops where
  "no_pandas_ops =
     \<lparr>maybe_promote = (\<lambda>vals. vals),
      setitem_repeated = (\<lambda>frame keys v. Inl (TypeError ''not modelled''))\<rparr>"

definition no_concat :: "InternalDataFrame list \<Rightarrow> error + InternalDataFrame" where
  "no_concat frames = Inl (TypeError ''not modelled'')"

text \<open>A runtime that writes its predictions to a frame of its own, at address 1.\<close>

definition fresh_runtime :: Runtime where
  "fresh_runtime =
     \<lparr>process_batch = (\<lambda>st batch it ot ins extra. (Inr 1, st(1 := predictions_frame))),
      process_record = (\<lambda>record ins it ot extra. Inr [])\<rparr>"

text \<open>
  A runtime whose frame has a column \<^verbatim>\<open>predictions\<close> and a column with the name of the
  skill \<^verbatim>\<open>sentiment\<close>.
\<close>

definition repeating_frame :: InternalDataFrame where
  "repeating_frame =
     \<lparr>columns = [''predictions'', ''sentiment''], index = [0, 1],
      data = [[PStr ''pos'', PStr ''neg''], [PStr ''neg'', PStr ''pos'']]\<rparr>"

definition repeating_runtime :: Runtime where
  "repeating_runtime =
     \<lparr>process_batch = (\<lambda>st batch it ot ins extra. (Inr 1, st(1 := repeating_frame))),
      process_record = (\<lambda>record ins it ot extra. Inr [])\<rparr>"

section \<open>Facts about \<^verbatim>\<open>str.format\<close>\<close>

lemma scan_field_name_plain:
  "set nm \<inter> set ''{}[]!:'' = {} \<Longrightarrow>
   scan_field_name False acc (nm @ CHR ''}'' # r) = Inr (acc @ nm, CHR ''}'', r)"
  by (induction nm arbitrary: acc) auto

lemma parse_field_plain:
  "set nm \<inter> set ''{}[]!:'' = {} \<Longrightarrow>
   parse_field (nm @ CHR ''}'' # r) =
     Inr (\<lparr>field_name = nm, conversion = None, format_spec = []\<rparr>, r)"
  by (simp add: parse_field_def scan_field_name_plain)

lemma field_name_split_plain:
  "set nm \<inter> set ''.['' = {} \<Longrightarrow> field_name_split nm = (nm, [])"
  by (auto simp: field_name_split_def)

lemma get_integer_input: "get_integer ''input'' = Inr None"
  by (simp add: get_integer_def is_decimal_def)

lemma render_field_plain:
  "set nm \<inter> set ''.['' = {} \<Longrightarrow>
   render_field ops [(''input'', f)] \<lparr>field_name = nm, conversion = None, format_spec = []\<rparr> =
     (if nm = ''input'' then Inr f else Inl (lookup_error nm))"
  by (auto simp: render_field_def field_name_split_plain get_integer_input lookup_error_def
           split: sum.splits option.splits)

lemma str_format_field:
  assumes "set nm \<inter> set ''{}[].!:'' = {}"
  shows "str_format ops [(''input'', f)] (CHR ''{'' # nm @ CHR ''}'' # r) =
           (if nm = ''input'' then emit f (str_format ops [(''input'', f)] r)
            else Inl (lookup_error nm))"
proof -
  have a: "set nm \<inter> set ''{}[]!:'' = {}" and b: "set nm \<inter> set ''.['' = {}"
    using assms by auto
  obtain d s' where eq: "nm @ CHR ''}'' # r = d # s'"
    by (cases "nm @ CHR ''}'' # r") auto
  have d: "d \<noteq> CHR ''{''"
    using a eq by (cases nm) auto
  have "str_format ops [(''input'', f)] (CHR ''{'' # d # s') =
          (case parse_field (d # s') of
             Inl e \<Rightarrow> Inl e
           | Inr (fld, r) \<Rightarrow>
               (case render_field ops [(''input'', f)] fld of
                  Inl e \<Rightarrow> Inl e
                | Inr v \<Rightarrow> emit v (str_format ops [(''input'', f)] r)))"
    using d by simp
  then show ?thesis
    unfolding eq [symmetric]
    by (simp add: parse_field_plain [OF a] render_field_plain [OF b])
qed

lemma str_format_pieces:
  "list_all plain_piece ps \<Longrightarrow>
   str_format ops [(''input'', f)] (template_of ps) = format_pieces f ps"
proof (induction ps)
  case Nil
  then show ?case by (simp add: template_of_def)
next
  case (Cons p ps)
  then have ih: "str_format ops [(''input'', f)] (template_of ps) = format_pieces f ps"
    and pl: "plain_piece p" by simp_all
  show ?case
  proof (cases p)
    case (Text c)
    with ih pl show ?thesis by (simp add: template_of_def)
  next
    case Open
    with ih show ?thesis by (simp add: template_of_def)
  next
    case Close
    with ih show ?thesis by (simp add: template_of_def)
  next
    case (Field nm)
    with pl have "set nm \<inter> set ''{}[].!:'' = {}" by simp
    from str_format_field [OF this, of ops f "template_of ps"] ih Field
    show ?thesis by (simp add: template_of_def)
  qed
qed

lemma format_pieces_all_input:
  "list_all input_piece ps \<Longrightarrow> format_pieces f ps = Inr (concat (map (piece_value f) ps))"
proof (induction ps)
  case Nil
  then show ?case by simp
next
  case (Cons p ps)
  then show ?case by (cases p) (simp_all add: emit_def)
qed





lemma str_format_marker:
  "str_format ops [(''input'', f)] (marker @ r) =
     emit (''{{'' @ f @ ''}}'') (str_format ops [(''input'', f)] r)"
  using str_format_field [of "''input''" ops f "''}}}}'' @ r"]
  by (cases "str_format ops [(''input'', f)] r") (simp_all add: marker_def emit_def)

lemma str_replace_marker_step:
  "str_replace marker new (marker @ r) = new @ str_replace marker new r"
proof -
  obtain c s where cs: "marker @ r = c # s"
    by (cases "marker @ r") (auto simp: marker_def)
  have "prefix marker (c # s)" "drop (length marker) (c # s) = r" "marker \<noteq> []"
    unfolding cs [symmetric] by (simp_all add: marker_def)
  then have "str_replace marker new (c # s) = new @ str_replace marker new r"
    by simp
  then show ?thesis by (simp only: cs)
qed

lemma str_format_only_markers:
  "set (str_replace marker [] t) \<inter> {CHR ''{'', CHR ''}''} = {} \<Longrightarrow>
   str_format ops [(''input'', f)] t = Inr (str_replace marker (''{{'' @ f @ ''}}'') t)"
proof (induction t rule: length_induct)
  case (1 t)
  show ?case
  proof (cases t)
    case Nil
    then show ?thesis by (simp add: marker_def)
  next
    case (Cons c s)
    have ne: "marker \<noteq> []" by (simp add: marker_def)
    show ?thesis
    proof (cases "prefix marker t")
      case True
      then obtain r where t: "t = marker @ r"
        by (auto simp: prefix_def)
      have len: "length r < length t"
        by (simp add: t marker_def)
      have "set (str_replace marker [] r) \<inter> {CHR ''{'', CHR ''}''} = {}"
        using "1.prems" by (simp add: t str_replace_marker_step)
      with "1.IH" len
      have "str_format ops [(''input'', f)] r = Inr (str_replace marker (''{{'' @ f @ ''}}'') r)"
        by blast
      then show ?thesis
        by (simp add: t str_format_marker str_replace_marker_step emit_def)
    next
      case False
      have rep: "str_replace marker new (c # s) = c # str_replace marker new s" for new
        using False ne unfolding Cons by simp
      from "1.prems" have c: "c \<noteq> CHR ''{''" "c \<noteq> CHR ''}''"
        and rest: "set (str_replace marker [] s) \<inter> {CHR ''{'', CHR ''}''} = {}"
        unfolding Cons rep by auto
      from "1.IH" rest Cons
      have ih: "str_format ops [(''input'', f)] s = Inr (str_replace marker (''{{'' @ f @ ''}}'') s)"
        by simp
      show ?thesis
        unfolding Cons rep using c ih by (simp add: emit_def)
    qed
  qed
qed

lemma short_runs_no_prefix: "short_runs k s \<Longrightarrow> \<not> prefix ''{{{{{'' s"
  by (auto simp: prefix_def)

lemma short_runs_no_marker: "short_runs k s \<Longrightarrow> \<not> str_contains marker s"
proof (induction s arbitrary: k)
  case Nil
  then show ?case by (simp add: marker_def)
next
  case (Cons c s)
  have "\<not> prefix marker (c # s)"
  proof
    assume "prefix marker (c # s)"
    then obtain r where "c # s = marker @ r"
      by (auto simp: prefix_def)
    then have "c # s = ''{{{{{'' @ (''input}}}}}'' @ r)"
      by (simp add: marker_def)
    then have "prefix ''{{{{{'' (c # s)"
      unfolding prefix_def by blast
    with short_runs_no_prefix [OF Cons.prems] show False by blast
  qed
  moreover have "\<not> str_contains marker s"
    using Cons by (auto split: if_splits)
  ultimately show ?case by simp
qed

lemma short_runs_append:
  "CHR ''{'' \<notin> set f \<Longrightarrow> f \<noteq> [] \<Longrightarrow> short_runs k (f @ s) = short_runs 0 s"
proof (induction f arbitrary: k)
  case Nil
  then show ?case by simp
next
  case (Cons c f)
  then show ?case by (cases f) auto
qed

lemma short_runs_pieces:
  "CHR ''{'' \<notin> set f \<Longrightarrow> f \<noteq> [] \<Longrightarrow> list_all plain_piece ps \<Longrightarrow> short_opens k ps \<Longrightarrow>
   short_runs k (concat (map (piece_value f) ps))"
proof (induction ps arbitrary: k)
  case Nil
  then show ?case by simp
next
  case (Cons p ps)
  then show ?case by (cases p) (simp_all add: short_runs_append)
qed





section \<open>Facts about data frames\<close>

lemma position_None: "position x xs = None \<longleftrightarrow> x \<notin> set xs"
  by (induction xs) auto

lemma position_Some: "position x xs = Some j \<Longrightarrow> j < length xs \<and> xs ! j = x"
  by (induction xs arbitrary: j) (auto split: if_splits)

lemma position_append: "x \<in> set xs \<Longrightarrow> position x (xs @ ys) = position x xs"
  by (induction xs) auto

lemma position_append_new: "x \<notin> set xs \<Longrightarrow> position x (xs @ [x]) = Some (length xs)"
  by (induction xs) auto

lemma position_nth: "distinct xs \<Longrightarrow> i < length xs \<Longrightarrow> position (xs ! i) xs = Some i"
proof (induction xs arbitrary: i)
  case Nil
  then show ?case by simp
next
  case (Cons y ys)
  then show ?case by (cases i) auto
qed

lemma count_list_member: "k \<in> set xs \<Longrightarrow> 1 \<le> count_list xs k"
  by (induction xs) auto

lemma distinct_count_list: "distinct xs \<Longrightarrow> count_list xs k \<le> 1"
proof (induction xs)
  case Nil
  then show ?case by simp
next
  case (Cons x xs)
  then show ?case using count_list_member [of k xs] by auto
qed

lemma repeated_count_list: "\<not> distinct xs \<Longrightarrow> \<exists>k \<in> set xs. 2 \<le> count_list xs k"
proof (induction xs)
  case Nil
  then show ?case by simp
next
  case (Cons x xs)
  show ?case
  proof (cases "x \<in> set xs")
    case True
    from count_list_member [OF this] show ?thesis by auto
  next
    case False
    with Cons obtain k where "k \<in> set xs" "2 \<le> count_list xs k" by auto
    then have "k \<in> set (x # xs)" "2 \<le> count_list (x # xs) k" by auto
    then show ?thesis by blast
  qed
qed

lemma sum_list_at_least_length:
  fixes g :: "'a \<Rightarrow> nat"
  shows "\<forall>k \<in> set ks. 1 \<le> g k \<Longrightarrow> length ks \<le> sum_list (map g ks)"
  by (induction ks) auto

lemma sum_list_above_length:
  fixes g :: "'a \<Rightarrow> nat"
  assumes "\<forall>k \<in> set ks. 1 \<le> g k" and "\<exists>k \<in> set ks. 2 \<le> g k"
  shows "length ks < sum_list (map g ks)"
  using assms
proof (induction ks)
  case Nil
  then show ?case by simp
next
  case (Cons k ks)
  have le: "length ks \<le> sum_list (map g ks)"
    using Cons.prems(1) by (intro sum_list_at_least_length) simp
  show ?case
  proof (cases "2 \<le> g k")
    case True
    with le show ?thesis by simp
  next
    case False
    with Cons.prems have "\<exists>k \<in> set ks. 2 \<le> g k" "\<forall>k \<in> set ks. 1 \<le> g k" "1 \<le> g k"
      by auto
    with Cons.IH show ?thesis by simp
  qed
qed

lemma indexer_length_at_least: "length keys \<le> indexer_length cols keys"
  unfolding indexer_length_def by (rule sum_list_at_least_length) simp

lemma indexer_length_unique:
  "indexer_length cols keys = length keys \<Longrightarrow> list_all (\<lambda>k. count_list cols k \<le> 1) keys"
proof (induction keys)
  case Nil
  then show ?case by simp
next
  case (Cons k keys)
  have "indexer_length cols (k # keys) = max 1 (count_list cols k) + indexer_length cols keys"
    by (simp add: indexer_length_def)
  with Cons.prems indexer_length_at_least [of keys cols]
  have "count_list cols k \<le> 1" "indexer_length cols keys = length keys"
    by auto
  with Cons.IH show ?case by simp
qed

lemma length_matching:
  "length xs = length ys \<Longrightarrow>
   length (filter (\<lambda>(c, col). c = k) (zip xs ys)) = count_list xs k"
  by (induction xs ys rule: list_induct2) auto

lemma concat_matching:
  "distinct (map fst xs) \<Longrightarrow>
   concat (map (\<lambda>y. filter (\<lambda>z. fst z = fst y) xs) xs) = xs"
proof (induction xs)
  case Nil
  then show ?case by simp
next
  case (Cons x xs)
  define F where "F = (\<lambda>(l :: ('a \<times> 'b) list) (y :: 'a \<times> 'b). filter (\<lambda>z. fst z = fst y) l)"
  from Cons.prems have c: "\<forall>y \<in> set xs. fst y \<noteq> fst x" and d: "distinct (map fst xs)"
    by (auto simp: image_iff)
  have first: "F (x # xs) x = [x]"
    using c by (auto simp: F_def filter_empty_conv)
  have rest: "map (F (x # xs)) xs = map (F xs) xs"
    using c by (intro map_cong) (auto simp: F_def)
  have ih: "concat (map (F xs) xs) = xs"
    using Cons.IH [OF d] by (simp add: F_def)
  have "concat (map (F (x # xs)) (x # xs)) = x # xs"
    by (simp add: first rest ih)
  then show ?case by (simp add: F_def)
qed

lemma getitem_own_result:
  "getitem_columns fr (columns fr) =
     Inr \<lparr>columns = map fst (concat (map (matching_columns fr) (columns fr))),
          index = index fr,
          data = map snd (concat (map (matching_columns fr) (columns fr)))\<rparr>"
proof -
  have "filter (\<lambda>k. k \<notin> set (columns fr)) (columns fr) = []"
    by (simp add: filter_empty_conv)
  then show ?thesis by (simp add: getitem_columns_def)
qed

lemma getitem_own_columns:
  assumes "distinct (columns fr)" and "length (data fr) = length (columns fr)"
  shows "getitem_columns fr (columns fr) = Inr fr"
proof -
  let ?z = "zip (columns fr) (data fr)"
  have m: "map fst ?z = columns fr" "map snd ?z = data fr"
    using assms(2) by simp_all
  have "concat (map (\<lambda>y. filter (\<lambda>z. fst z = fst y) ?z) ?z) = ?z"
    using assms(1) by (intro concat_matching) (simp add: m)
  moreover have "map (matching_columns fr) (map fst ?z)
                   = map (\<lambda>y. filter (\<lambda>z. fst z = fst y) ?z) ?z"
  proof -
    have "(\<lambda>(c, col). c = k) = (\<lambda>z :: string \<times> pyval list. fst z = k)" for k
      by auto
    then show ?thesis
      by (simp add: matching_columns_def comp_def del: map_fst_zip)
  qed
  ultimately have "concat (map (matching_columns fr) (columns fr)) = ?z"
    by (simp only: m(1))
  then show ?thesis
    by (simp add: getitem_own_result m)
qed

lemma getitem_own_longer:
  assumes "\<not> distinct (columns fr)" and "length (data fr) = length (columns fr)"
    and "getitem_columns fr (columns fr) = Inr v"
  shows "length (columns fr) < length (columns v)"
proof -
  have "length (columns v) = sum_list (map (\<lambda>k. length (matching_columns fr k)) (columns fr))"
    using assms(3) by (auto simp: getitem_own_result length_concat comp_def)
  also have "\<dots> = sum_list (map (count_list (columns fr)) (columns fr))"
    using assms(2) by (simp add: matching_columns_def length_matching)
  finally have l: "length (columns v) = sum_list (map (count_list (columns fr)) (columns fr))" .
  have "length (columns fr) < sum_list (map (count_list (columns fr)) (columns fr))"
    using repeated_count_list [OF assms(1)] count_list_member [of _ "columns fr"]
    by (intro sum_list_above_length) auto
  with l show ?thesis by simp
qed

lemma reindex_depends_on_index:
  "index a = index b \<Longrightarrow> reindex_for_setitem pd series a = reindex_for_setitem pd series b"
  by (simp add: reindex_for_setitem_def)

lemma set_item_frame:
  assumes "set_item pd fr k series = Inr fr'"
    and "index fr \<noteq> [] \<or> series = []"
    and "length (data fr) = length (columns fr)"
  shows "index fr' = index fr"
    and "columns fr' = (if k \<in> set (columns fr) then columns fr else columns fr @ [k])"
    and "length (data fr') = length (columns fr')"
    and "c \<noteq> k \<Longrightarrow> c \<in> set (columns fr) \<Longrightarrow> column_of fr' c = column_of fr c"
    and "i < length (columns fr) \<Longrightarrow> columns fr ! i \<noteq> k \<Longrightarrow> data fr' ! i = data fr ! i"
    and "\<exists>vals. reindex_for_setitem pd series fr = Inr vals \<and> column_of fr' k = Some vals"
proof -
  have v: "ensure_valid_index fr series = fr"
    using assms(2) by (auto simp: ensure_valid_index_def)
  then obtain vals where r: "reindex_for_setitem pd series fr = Inr vals"
    and d: "fr' = set_item_mgr fr k vals"
    using assms(1) by (auto simp: set_item_def split: sum.splits)
  show "index fr' = index fr"
    by (simp add: d set_item_mgr_def split: option.splits)
  show "columns fr' = (if k \<in> set (columns fr) then columns fr else columns fr @ [k])"
    using position_None [of k "columns fr"]
    by (auto simp: d set_item_mgr_def split: option.splits)
  show "length (data fr') = length (columns fr')"
    using assms(3) by (simp add: d set_item_mgr_def split: option.splits)
  show "column_of fr' c = column_of fr c" if ck: "c \<noteq> k" and cm: "c \<in> set (columns fr)"
  proof -
    obtain i where i: "position c (columns fr) = Some i"
      using cm position_None [of c "columns fr"] by (cases "position c (columns fr)") auto
    then have il: "i < length (data fr)" "columns fr ! i = c"
      using position_Some [OF i] assms(3) by simp_all
    show ?thesis
    proof (cases "position k (columns fr)")
      case None
      then show ?thesis
        using i il cm
        by (simp add: d set_item_mgr_def column_of_def position_append nth_append)
    next
      case (Some j)
      with position_Some [OF Some] il ck have "i \<noteq> j" by auto
      with Some show ?thesis
        using i by (simp add: d set_item_mgr_def column_of_def)
    qed
  qed
  show "data fr' ! i = data fr ! i" if il: "i < length (columns fr)" and ik: "columns fr ! i \<noteq> k"
  proof (cases "position k (columns fr)")
    case None
    then show ?thesis
      using il assms(3) by (simp add: d set_item_mgr_def nth_append)
  next
    case (Some j)
    with position_Some [OF Some] ik have "i \<noteq> j" by auto
    with Some show ?thesis
      by (simp add: d set_item_mgr_def)
  qed
  have "column_of fr' k = Some vals"
  proof (cases "position k (columns fr)")
    case None
    then have "k \<notin> set (columns fr)" by (simp add: position_None)
    moreover have "(data fr @ [vals]) ! length (columns fr) = vals"
      unfolding assms(3) [symmetric] by simp
    ultimately show ?thesis
      using None by (simp add: d set_item_mgr_def column_of_def position_append_new)
  next
    case (Some j)
    with position_Some [OF Some] assms(3) show ?thesis
      by (simp add: d set_item_mgr_def column_of_def)
  qed
  with r show "\<exists>vals. reindex_for_setitem pd series fr = Inr vals \<and> column_of fr' k = Some vals"
    by blast
qed

lemma setitem_loop_frame:
  assumes "setitem_loop pd fr kvs = Inr out"
    and "distinct (map fst kvs)"
    and "length (data fr) = length (columns fr)"
    and "index fr \<noteq> [] \<or> list_all (\<lambda>(k, series). series = []) kvs"
  shows "index out = index fr
    \<and> columns out = columns fr @ filter (\<lambda>k. k \<notin> set (columns fr)) (map fst kvs)
    \<and> length (data out) = length (columns out)
    \<and> (\<forall>c \<in> set (columns fr). c \<notin> fst ` set kvs \<longrightarrow> column_of out c = column_of fr c)
    \<and> (\<forall>i < length (columns fr). columns fr ! i \<notin> fst ` set kvs \<longrightarrow> data out ! i = data fr ! i)
    \<and> (\<forall>(k, series) \<in> set kvs.
          \<exists>vals. reindex_for_setitem pd series fr = Inr vals \<and> column_of out k = Some vals)"
  using assms
proof (induction kvs arbitrary: fr)
  case Nil
  then show ?case by simp
next
  case (Cons kv kvs)
  obtain k series where kv: "kv = (k, series)" by (cases kv)
  from Cons.prems(1) obtain fr' where s: "set_item pd fr k series = Inr fr'"
    and l: "setitem_loop pd fr' kvs = Inr out"
    by (auto simp: kv split: sum.splits)
  have e: "index fr \<noteq> [] \<or> series = []"
    using Cons.prems(4) by (auto simp: kv)
  note f = set_item_frame [OF s e Cons.prems(3)]
  have d: "distinct (map fst kvs)" and kn: "k \<notin> fst ` set kvs"
    using Cons.prems(2) by (auto simp: kv)
  have e': "index fr' \<noteq> [] \<or> list_all (\<lambda>(k, series). series = []) kvs"
    using Cons.prems(4) f(1) by auto
  note ih = Cons.IH [OF l d f(3) e']
  have i: "index out = index fr"
    using ih f(1) by simp
  have len: "length (data out) = length (columns out)"
    using ih by simp
  have cols: "columns out = columns fr @ filter (\<lambda>k. k \<notin> set (columns fr)) (map fst (kv # kvs))"
  proof (cases "k \<in> set (columns fr)")
    case True
    with ih f(2) show ?thesis by (simp add: kv)
  next
    case False
    have "filter (\<lambda>x. x \<notin> set (columns fr @ [k])) (map fst kvs)
            = filter (\<lambda>x. x \<notin> set (columns fr)) (map fst kvs)"
      using kn by (intro filter_cong) auto
    with False ih f(2) show ?thesis by (simp add: kv)
  qed
  have keep: "column_of out c = column_of fr c"
    if "c \<in> set (columns fr)" "c \<notin> fst ` set (kv # kvs)" for c
  proof -
    from that have ck: "c \<noteq> k" and cn: "c \<notin> fst ` set kvs" by (auto simp: kv)
    have "c \<in> set (columns fr')" using that(1) f(2) by auto
    with ih cn have "column_of out c = column_of fr' c" by blast
    with f(4) [OF ck that(1)] show ?thesis by simp
  qed
  have pos: "data out ! j = data fr ! j"
    if "j < length (columns fr)" "columns fr ! j \<notin> fst ` set (kv # kvs)" for j
  proof -
    from that have jk: "columns fr ! j \<noteq> k" and jn: "columns fr ! j \<notin> fst ` set kvs"
      by (auto simp: kv)
    have "j < length (columns fr')" "columns fr' ! j = columns fr ! j"
      using that(1) f(2) by (auto simp: nth_append)
    with ih jn have "data out ! j = data fr' ! j" by auto
    with f(5) [OF that(1) jk] show ?thesis by simp
  qed
  have vals: "\<exists>vals. reindex_for_setitem pd series' fr = Inr vals \<and> column_of out k' = Some vals"
    if "(k', series') \<in> set (kv # kvs)" for k' series'
  proof (cases "(k', series') = (k, series)")
    case True
    from f(6) obtain vals where r: "reindex_for_setitem pd series fr = Inr vals"
      and c: "column_of fr' k = Some vals" by blast
    have "k \<in> set (columns fr')" using f(2) by auto
    with ih kn have "column_of out k = column_of fr' k" by blast
    with r c True show ?thesis by auto
  next
    case False
    have "(k', series') \<in> set kvs" using that False by (auto simp: kv)
    with ih obtain vals where "reindex_for_setitem pd series' fr' = Inr vals"
      "column_of out k' = Some vals" by fast
    with reindex_depends_on_index [OF f(1), of pd series'] show ?thesis by auto
  qed
  show ?case
    using i cols len keep pos vals by blast
qed

lemma set_item_same_index:
  assumes "map fst series = index fr"
  shows "\<exists>fr'. set_item pd fr k series = Inr fr' \<and> index fr' = index fr"
proof -
  have "ensure_valid_index fr series = fr"
    using assms by (auto simp: ensure_valid_index_def)
  then show ?thesis
    using assms
    by (simp add: set_item_def reindex_for_setitem_def set_item_mgr_def split: option.splits)
qed

lemma setitem_loop_same_index:
  "list_all (\<lambda>(k, series). map fst series = index fr) kvs \<Longrightarrow>
   \<exists>out. setitem_loop pd fr kvs = Inr out"
proof (induction kvs arbitrary: fr)
  case Nil
  then show ?case by simp
next
  case (Cons kv kvs)
  obtain k series where kv: "kv = (k, series)" by (cases kv)
  with Cons.prems have "map fst series = index fr" by simp
  from set_item_same_index [OF this, of pd k] obtain fr'
    where s: "set_item pd fr k series = Inr fr'" and i: "index fr' = index fr" by blast
  from Cons.prems i have "list_all (\<lambda>(k, series). map fst series = index fr') kvs"
    by simp
  from Cons.IH [OF this] s show ?case by (simp add: kv)
qed

lemma frame_series_keys:
  "length (data v) = length (columns v) \<Longrightarrow> map fst (zip (columns v) (frame_series v)) = columns v"
  by (simp add: frame_series_def)

lemma frame_series_aligned:
  "list_all (\<lambda>col. length col = length (index v)) (data v) \<Longrightarrow>
   list_all (\<lambda>(k, series). map fst series = index v) (zip ks (frame_series v))"
  by (auto simp: frame_series_def list_all_iff set_zip)

lemma frame_series_empty:
  "index v = [] \<Longrightarrow> list_all (\<lambda>(k, series). series = []) (zip ks (frame_series v))"
  by (auto simp: frame_series_def list_all_iff set_zip)

subsection \<open>Executing a skill\<close>

lemma skill_call_store:
  assumes "process_batch runtime st input (input_template self) (output_template self)
             (instructions self) (get_extra_fields self) = (Inr rp, st1)"
  shows "snd (skill_call pd self st input runtime) =
           st1(rp := rename_columns (prediction_field self) (name self) (st1 rp))"
  using assms by (simp add: skill_call_def Let_def split: sum.splits)

lemma skill_call_frame:
  assumes pb: "process_batch runtime st input (input_template self) (output_template self)
                 (instructions self) (get_extra_fields self) = (Inr rp, st1)"
    and fresh: "rp \<noteq> input"
    and untouched: "st1 input = st input"
    and nrows: "length (index (st1 rp)) = length (index (st input))"
    and wf: "wf_frame (st input)" "wf_frame (st1 rp)"
    and labels: "distinct (columns (st input))
      \<or> distinct (columns (rename_columns (prediction_field self) (name self) (st1 rp)))"
  shows "snd (skill_call pd self st input runtime) input = st input
    \<and> snd (skill_call pd self st input runtime) =
        st1(rp := rename_columns (prediction_field self) (name self) (st1 rp))
    \<and> (\<forall>out. fst (skill_call pd self st input runtime) = Inr out \<longrightarrow>
          distinct (columns (rename_columns (prediction_field self) (name self) (st1 rp)))
          \<and> index out = index (st input)
          \<and> columns out =
              columns (st input)
              @ filter (\<lambda>k. k \<notin> set (columns (st input)))
                  (columns (rename_columns (prediction_field self) (name self) (st1 rp)))
          \<and> (\<forall>j < length (columns (st input)).
                columns (st input) ! j
                  \<notin> set (columns (rename_columns (prediction_field self) (name self) (st1 rp)))
                \<longrightarrow> data out ! j = data (st input) ! j)
          \<and> (\<forall>i < length (columns (st1 rp)).
                \<exists>vals. reindex_for_setitem pd (zip (index (st1 rp)) (data (st1 rp) ! i)) (st input)
                         = Inr vals
                  \<and> column_of out
                       (columns (rename_columns (prediction_field self) (name self) (st1 rp)) ! i)
                     = Some vals)
          \<and> (index (st1 rp) = index (st input) \<longrightarrow>
                (\<forall>i < length (columns (st1 rp)).
                   column_of out
                     (columns (rename_columns (prediction_field self) (name self) (st1 rp)) ! i)
                   = Some (data (st1 rp) ! i))))
    \<and> (\<not> distinct (columns (rename_columns (prediction_field self) (name self) (st1 rp))) \<longrightarrow>
          fst (skill_call pd self st input runtime) =
            Inl (ValueError ''Columns must be same length as key''))
    \<and> (index (st1 rp) = index (st input)
        \<and> distinct (columns (rename_columns (prediction_field self) (name self) (st1 rp)))
        \<and> distinct (columns (st input)) \<longrightarrow>
          (\<exists>out. fst (skill_call pd self st input runtime) = Inr out))"
proof -
  let ?rp = "rename_columns (prediction_field self) (name self) (st1 rp)"
  let ?st2 = "st1(rp := ?rp)"
  let ?keys = "columns ?rp"
  let ?kvs = "zip ?keys (frame_series ?rp)"
  have inp: "?st2 input = st input"
    using fresh untouched by simp
  have len: "length (data ?rp) = length ?keys"
    and cols: "list_all (\<lambda>col. length col = length (index ?rp)) (data ?rp)"
    and idx: "index ?rp = index (st1 rp)"
    and dat: "data ?rp = data (st1 rp)"
    and nkeys: "length ?keys = length (columns (st1 rp))"
    using wf(2) by (simp_all add: rename_columns_def wf_frame_def)
  have w: "length (data (st input)) = length (columns (st input))"
    using wf(1) by (simp add: wf_frame_def)
  obtain v where gi: "getitem_columns ?rp ?keys = Inr v"
    using getitem_own_result [of ?rp] by blast
  have call: "skill_call pd self st input runtime =
                (case setitem_columns pd (st input) ?keys v of
                   Inl e \<Rightarrow> (Inl e, ?st2)
                 | Inr out \<Rightarrow> (Inr out, ?st2))"
    using fresh untouched by (simp add: skill_call_def pb Let_def gi)
  have store: "snd (skill_call pd self st input runtime) = ?st2"
    by (simp add: call split: sum.splits)
  have repeated: "setitem_columns pd (st input) ?keys v =
                    Inl (ValueError ''Columns must be same length as key'')"
    if nd: "\<not> distinct ?keys"
  proof -
    from nd labels have di: "distinct (columns (st input))" by blast
    from getitem_own_longer [OF nd len gi] have "length (columns v) \<noteq> length ?keys"
      by simp
    with di show ?thesis
      by (simp add: setitem_columns_def check_key_length_def)
  qed
  have unique: "v = ?rp"
    "setitem_columns pd (st input) ?keys v =
       (if check_key_length (columns (st input)) ?keys ?rp
        then setitem_loop pd (st input) ?kvs
        else Inl (ValueError ''Columns must be same length as key''))"
    if d: "distinct ?keys"
  proof -
    from getitem_own_columns [OF d len] gi show v: "v = ?rp" by simp
    have "list_all (\<lambda>k. count_list (columns (st input)) k \<le> 1) ?keys"
      if "check_key_length (columns (st input)) ?keys ?rp"
    proof (cases "distinct (columns (st input))")
      case True
      from distinct_count_list [OF this] show ?thesis
        unfolding list_all_iff by blast
    next
      case False
      with that have "indexer_length (columns (st input)) ?keys = length ?keys"
        by (simp add: check_key_length_def)
      then show ?thesis by (rule indexer_length_unique)
    qed
    with d show "setitem_columns pd (st input) ?keys v =
       (if check_key_length (columns (st input)) ?keys ?rp
        then setitem_loop pd (st input) ?kvs
        else Inl (ValueError ''Columns must be same length as key''))"
      unfolding v by (simp add: setitem_columns_def)
  qed
  have keys: "map fst ?kvs = ?keys"
    using len by (rule frame_series_keys)
  have noadopt: "index (st input) \<noteq> [] \<or> list_all (\<lambda>(k, series). series = []) ?kvs"
  proof (cases "index (st input) = []")
    case True
    with nrows idx have "index ?rp = []" by simp
    then show ?thesis by (rule disjI2 [OF frame_series_empty])
  next
    case False
    then show ?thesis by simp
  qed
  have result: "distinct ?keys
          \<and> index out = index (st input)
          \<and> columns out =
              columns (st input) @ filter (\<lambda>k. k \<notin> set (columns (st input))) ?keys
          \<and> (\<forall>j < length (columns (st input)).
                columns (st input) ! j \<notin> set ?keys \<longrightarrow> data out ! j = data (st input) ! j)
          \<and> (\<forall>i < length (columns (st1 rp)).
                \<exists>vals. reindex_for_setitem pd (zip (index (st1 rp)) (data (st1 rp) ! i)) (st input)
                         = Inr vals
                  \<and> column_of out (?keys ! i) = Some vals)
          \<and> (index (st1 rp) = index (st input) \<longrightarrow>
                (\<forall>i < length (columns (st1 rp)).
                   column_of out (?keys ! i) = Some (data (st1 rp) ! i)))"
    if ok: "fst (skill_call pd self st input runtime) = Inr out" for out
  proof -
    from ok have sc: "setitem_columns pd (st input) ?keys v = Inr out"
      by (simp add: call split: sum.splits)
    have d: "distinct ?keys"
      using repeated sc by auto
    from unique(2) [OF d] sc have l: "setitem_loop pd (st input) ?kvs = Inr out"
      by (simp split: if_splits)
    have dk: "distinct (map fst ?kvs)"
      using d by (simp only: keys)
    have s: "fst ` set ?kvs = set ?keys"
      using keys by (metis set_map)
    note f = setitem_loop_frame [OF l dk w noadopt]
    have vals: "\<exists>vals. reindex_for_setitem pd (zip (index (st1 rp)) (data (st1 rp) ! i)) (st input)
                         = Inr vals
                  \<and> column_of out (?keys ! i) = Some vals"
      if i: "i < length (columns (st1 rp))" for i
    proof -
      have "i < length ?keys" "i < length (frame_series ?rp)"
        using i nkeys len by (simp_all add: frame_series_def)
      then have "(?keys ! i, frame_series ?rp ! i) \<in> set ?kvs"
        by (auto simp: set_zip)
      moreover have "frame_series ?rp ! i = zip (index (st1 rp)) (data (st1 rp) ! i)"
        using i nkeys len by (simp add: frame_series_def idx dat)
      ultimately show ?thesis
        using f by fastforce
    qed
    have same: "column_of out (?keys ! i) = Some (data (st1 rp) ! i)"
      if i: "i < length (columns (st1 rp))" and e: "index (st1 rp) = index (st input)" for i
    proof -
      have "i < length (data ?rp)"
        using i nkeys len by simp
      with cols have "length (data (st1 rp) ! i) = length (index (st input))"
        by (simp add: list_all_length idx dat e)
      then have "reindex_for_setitem pd (zip (index (st1 rp)) (data (st1 rp) ! i)) (st input)
                   = Inr (data (st1 rp) ! i)"
        by (simp add: reindex_for_setitem_def e)
      with vals [OF i] show ?thesis by auto
    qed
    from f d vals same show ?thesis
      unfolding s keys by blast
  qed
  have succeeds: "\<exists>out. fst (skill_call pd self st input runtime) = Inr out"
    if e: "index (st1 rp) = index (st input)" and d: "distinct ?keys"
      and di: "distinct (columns (st input))"
  proof -
    from e idx cols
    have "list_all (\<lambda>col. length col = length (index (st input))) (data ?rp)"
      by simp
    then have "list_all (\<lambda>(k, series). map fst series = index (st input)) ?kvs"
      using frame_series_aligned [of ?rp ?keys] e idx by simp
    from setitem_loop_same_index [OF this, of pd]
    obtain out where "setitem_loop pd (st input) ?kvs = Inr out" by blast
    moreover have "check_key_length (columns (st input)) ?keys ?rp"
      using di by (simp add: check_key_length_def)
    ultimately show ?thesis
      using unique(2) [OF d] by (simp add: call)
  qed
  show ?thesis
  proof (intro conjI)
    show "snd (skill_call pd self st input runtime) input = st input"
      using store inp by simp
    show "snd (skill_call pd self st input runtime) = ?st2"
      by (rule store)
    show "\<forall>out. fst (skill_call pd self st input runtime) = Inr out \<longrightarrow>
          distinct ?keys
          \<and> index out = index (st input)
          \<and> columns out =
              columns (st input) @ filter (\<lambda>k. k \<notin> set (columns (st input))) ?keys
          \<and> (\<forall>j < length (columns (st input)).
                columns (st input) ! j \<notin> set ?keys \<longrightarrow> data out ! j = data (st input) ! j)
          \<and> (\<forall>i < length (columns (st1 rp)).
                \<exists>vals. reindex_for_setitem pd (zip (index (st1 rp)) (data (st1 rp) ! i)) (st input)
                         = Inr vals
                  \<and> column_of out (?keys ! i) = Some vals)
          \<and> (index (st1 rp) = index (st input) \<longrightarrow>
                (\<forall>i < length (columns (st1 rp)).
                   column_of out (?keys ! i) = Some (data (st1 rp) ! i)))"
      using result by blast
    show "\<not> distinct ?keys \<longrightarrow>
          fst (skill_call pd self st input runtime) =
            Inl (ValueError ''Columns must be same length as key'')"
      using repeated by (simp add: call)
    show "index (st1 rp) = index (st input) \<and> distinct ?keys \<and> distinct (columns (st input)) \<longrightarrow>
          (\<exists>out. fst (skill_call pd self st input runtime) = Inr out)"
      using succeeds by blast
  qed
qed

section \<open>Construction fails without an input data field\<close>

text \<open>
  C1. A skill whose input template contains the placeholder \<^verbatim>\<open>{{{{{input}}}}}\<close> and whose
  \<^verbatim>\<open>input_data_field\<close> is \<^verbatim>\<open>None\<close> cannot be constructed: the validator that runs at
  construction raises the \<^verbatim>\<open>ValueError\<close> that names the missing field, so no skill
  exists on which \<^verbatim>\<open>apply\<close>, \<^verbatim>\<open>analyze\<close> or \<^verbatim>\<open>improve\<close> could be called.
\<close>

theorem construction_fails_without_input_data_field:
  assumes "input_template self = Some t"
    and "str_contains marker t"
    and "input_data_field self = None"
  shows "validate_inputs ops self =
           Inl (ValueError (''`input_data_field` is not provided for skill '' @ name self))"
  using assms by (simp add: validate_inputs_def input_data_field_error_def)

theorem construction_fails_without_input_data_field_witness:
  "input_template BaseSkill_defaults = Some ''Input: {{{{{input}}}}}''
   \<and> str_contains marker ''Input: {{{{{input}}}}}''
   \<and> input_data_field BaseSkill_defaults = None
   \<and> validate_inputs no_str_ops BaseSkill_defaults =
         Inl (ValueError ''`input_data_field` is not provided for skill '')"
proof -
  have t: "input_template BaseSkill_defaults = Some ''Input: {{{{{input}}}}}''"
    by (simp add: BaseSkill_defaults_def)
  have m: "str_contains marker ''Input: {{{{{input}}}}}''"
    by (simp add: marker_def)
  have f: "input_data_field BaseSkill_defaults = None"
    by (simp add: BaseSkill_defaults_def)
  have n: "name BaseSkill_defaults = []"
    by (simp add: BaseSkill_defaults_def)
  show ?thesis
    using construction_fails_without_input_data_field [OF t m f, of no_str_ops] t m f n
    by simp
qed

section \<open>Template resolution at construction\<close>

text \<open>
  C3, as the specification words it: when the template contains the placeholder and
  \<^verbatim>\<open>input_data_field\<close> is set, the placeholder is substituted with the field name and the
  result is stored; without the placeholder the template is stored unchanged. The first
  half fails on the code: \<^verbatim>\<open>validate_inputs\<close> formats the whole template, so for the
  template \<^verbatim>\<open>{{{{{input}}}}} {{{{date}}}}\<close> and the field \<^verbatim>\<open>text\<close> it stores
  \<^verbatim>\<open>{{text}} {{date}}\<close>, which is neither the template with the placeholder replaced by
  \<^verbatim>\<open>text\<close> nor the one with the placeholder replaced by \<^verbatim>\<open>{{text}}\<close>.
\<close>

theorem marker_only_replacement_counterexample:
  "validate_inputs no_str_ops (skill_with ''{{{{{input}}}}} {{{{date}}}}'' (Some ''text'')) =
     Inr ((skill_with ''{{{{{input}}}}} {{{{date}}}}'' (Some ''text''))\<lparr>input_template := Some ''{{text}} {{date}}''\<rparr>)
   \<and> str_replace marker ''text'' ''{{{{{input}}}}} {{{{date}}}}'' = ''text {{{{date}}}}''
   \<and> str_replace marker ''{{text}}'' ''{{{{{input}}}}} {{{{date}}}}'' = ''{{text}} {{{{date}}}}''"
  by code_simp

text \<open>
  C3, amended. Without the placeholder the skill, and so its template, is stored as given.
  With the placeholder and an input data field \<open>f\<close>, construction stores what
  \<^verbatim>\<open>str.format\<close> makes of the whole template (and fails when that raises); in a template
  whose only braces are those of placeholders, this is the template with every placeholder
  replaced by \<open>f\<close> in double braces.
\<close>

theorem template_resolution:
  assumes "input_template self = Some t"
  shows "(\<not> str_contains marker t \<longrightarrow> validate_inputs ops self = Inr self)
    \<and> (str_contains marker t \<and> input_data_field self = Some f \<longrightarrow>
         validate_inputs ops self =
           (case str_format ops [(''input'', f)] t of
              Inl e \<Rightarrow> Inl e
            | Inr r \<Rightarrow> Inr (self\<lparr>input_template := Some r\<rparr>)))
    \<and> (str_contains marker t \<and> input_data_field self = Some f
         \<and> set (str_replace marker [] t) \<inter> {CHR ''{'', CHR ''}''} = {} \<longrightarrow>
         validate_inputs ops self =
           Inr (self\<lparr>input_template := Some (str_replace marker (''{{'' @ f @ ''}}'') t)\<rparr>))"
  using assms by (simp add: validate_inputs_def str_format_only_markers)

theorem template_resolution_witness:
  "input_template (skill_with ''Input: text'' None) = Some ''Input: text''
   \<and> \<not> str_contains marker ''Input: text''
   \<and> validate_inputs no_str_ops (skill_with ''Input: text'' None) = Inr (skill_with ''Input: text'' None)
   \<and> input_template (skill_with ''Input: {{{{{input}}}}}'' (Some ''text'')) = Some ''Input: {{{{{input}}}}}''
   \<and> str_contains marker ''Input: {{{{{input}}}}}''
   \<and> input_data_field (skill_with ''Input: {{{{{input}}}}}'' (Some ''text'')) = Some ''text''
   \<and> set (str_replace marker [] ''Input: {{{{{input}}}}}'') \<inter> {CHR ''{'', CHR ''}''} = {}
   \<and> validate_inputs no_str_ops (skill_with ''Input: {{{{{input}}}}}'' (Some ''text'')) =
         Inr ((skill_with ''Input: {{{{{input}}}}}'' (Some ''text''))\<lparr>input_template := Some ''Input: {{text}}''\<rparr>)"
proof -
  have a: "input_template (skill_with ''Input: text'' None) = Some ''Input: text''"
    by (simp add: skill_with_def)
  have b: "\<not> str_contains marker ''Input: text''"
    by (simp add: marker_def)
  have c: "input_template (skill_with ''Input: {{{{{input}}}}}'' (Some ''text'')) = Some ''Input: {{{{{input}}}}}''"
    by (simp add: skill_with_def)
  have d: "str_contains marker ''Input: {{{{{input}}}}}''"
    by (simp add: marker_def)
  have e: "input_data_field (skill_with ''Input: {{{{{input}}}}}'' (Some ''text'')) = Some ''text''"
    by (simp add: skill_with_def)
  have g: "set (str_replace marker [] ''Input: {{{{{input}}}}}'') \<inter> {CHR ''{'', CHR ''}''} = {}"
    by (simp add: marker_def)
  have h: "str_replace marker (''{{'' @ ''text'' @ ''}}'') ''Input: {{{{{input}}}}}'' = ''Input: {{text}}''"
    by (simp add: marker_def)
  have r1: "validate_inputs no_str_ops (skill_with ''Input: text'' None) = Inr (skill_with ''Input: text'' None)"
    using template_resolution [OF a, of no_str_ops] b by blast
  have r2: "validate_inputs no_str_ops (skill_with ''Input: {{{{{input}}}}}'' (Some ''text'')) =
         Inr ((skill_with ''Input: {{{{{input}}}}}'' (Some ''text''))\<lparr>input_template :=
           Some (str_replace marker (''{{'' @ ''text'' @ ''}}'') ''Input: {{{{{input}}}}}'')\<rparr>)"
    using template_resolution [OF c, of no_str_ops "''text''"] d e g by blast
  show ?thesis
    using a b c d e g r1 r2 [unfolded h] by blast
qed

section \<open>The stored template and the placeholder\<close>

text \<open>
  C9, as stated: the stored template of a constructed skill never contains the
  placeholder. It fails on the code: ten braces on each side of \<^verbatim>\<open>input\<close> format to the
  placeholder itself, and so does the default template with the input data field
  \<^verbatim>\<open>{{{input}}}\<close>.
\<close>

theorem marker_survives_construction_counterexample:
  "str_contains marker ''{{{{{{{{{{input}}}}}}}}}}''
   \<and> validate_inputs no_str_ops (skill_with ''{{{{{{{{{{input}}}}}}}}}}'' (Some ''text'')) =
        Inr ((skill_with ''{{{{{{{{{{input}}}}}}}}}}'' (Some ''text''))\<lparr>input_template := Some ''{{{{{input}}}}}''\<rparr>)
   \<and> validate_inputs no_str_ops (skill_with ''Input: {{{{{input}}}}}'' (Some ''{{{input}}}'')) =
        Inr ((skill_with ''Input: {{{{{input}}}}}'' (Some ''{{{input}}}''))\<lparr>input_template := Some ''Input: {{{{{input}}}}}''\<rparr>)
   \<and> str_contains marker ''{{{{{input}}}}}''
   \<and> str_contains marker ''Input: {{{{{input}}}}}''"
  by code_simp

text \<open>
  C9, amended. A constructed skill either had no placeholder in its template and is stored
  as given, or had an input data field and stores the result of \<^verbatim>\<open>str.format\<close> on its
  template. The stored template is free of the placeholder when the template is made of
  plain pieces whose fields are all \<^verbatim>\<open>{input}\<close>, with fewer than five escaped \<^verbatim>\<open>{{\<close> in a
  row, and the input data field is not empty and has no \<^verbatim>\<open>{\<close>.
\<close>

theorem stored_template_after_construction:
  "(validate_inputs ops self = Inr s' \<longrightarrow>
      (\<exists>t. input_template self = Some t
         \<and> ((\<not> str_contains marker t \<and> s' = self)
            \<or> (str_contains marker t
               \<and> (\<exists>f r. input_data_field self = Some f
                     \<and> str_format ops [(''input'', f)] t = Inr r
                     \<and> s' = self\<lparr>input_template := Some r\<rparr>)))))
   \<and> (input_template self = Some (template_of ps) \<and> list_all plain_piece ps
        \<and> list_all input_piece ps \<and> short_opens 0 ps
        \<and> input_data_field self = Some g \<and> g \<noteq> [] \<and> CHR ''{'' \<notin> set g \<longrightarrow>
        (\<exists>s'' r. validate_inputs ops self = Inr s'' \<and> input_template s'' = Some r
           \<and> \<not> str_contains marker r))"
proof -
  have one: "validate_inputs ops self = Inr s' \<longrightarrow>
      (\<exists>t. input_template self = Some t
         \<and> ((\<not> str_contains marker t \<and> s' = self)
            \<or> (str_contains marker t
               \<and> (\<exists>f r. input_data_field self = Some f
                     \<and> str_format ops [(''input'', f)] t = Inr r
                     \<and> s' = self\<lparr>input_template := Some r\<rparr>))))"
    by (auto simp: validate_inputs_def split: option.splits if_splits sum.splits)
  have two: "\<exists>s'' r. validate_inputs ops self = Inr s'' \<and> input_template s'' = Some r
           \<and> \<not> str_contains marker r"
    if h: "input_template self = Some (template_of ps)" "list_all plain_piece ps"
      "list_all input_piece ps" "short_opens 0 ps"
      "input_data_field self = Some g" "g \<noteq> []" "CHR ''{'' \<notin> set g"
  proof (cases "str_contains marker (template_of ps)")
    case False
    with h(1) have "validate_inputs ops self = Inr self"
      by (simp add: validate_inputs_def)
    with h(1) False show ?thesis by auto
  next
    case True
    have "str_format ops [(''input'', g)] (template_of ps) = Inr (concat (map (piece_value g) ps))"
      using h(2,3) by (simp add: str_format_pieces format_pieces_all_input)
    with True h(1,5)
    have "validate_inputs ops self =
            Inr (self\<lparr>input_template := Some (concat (map (piece_value g) ps))\<rparr>)"
      by (simp add: validate_inputs_def)
    moreover have "\<not> str_contains marker (concat (map (piece_value g) ps))"
      using short_runs_pieces [OF h(7) h(6) h(2) h(4)] by (rule short_runs_no_marker)
    ultimately show ?thesis by simp
  qed
  show ?thesis
    using one two by blast
qed

theorem stored_template_after_construction_witness:
  "template_of pieces_default = ''Input: {{{{{input}}}}}''
   \<and> list_all plain_piece pieces_default \<and> list_all input_piece pieces_default
   \<and> short_opens 0 pieces_default
   \<and> validate_inputs no_str_ops (skill_with ''Input: {{{{{input}}}}}'' (Some ''text'')) =
        Inr ((skill_with ''Input: {{{{{input}}}}}'' (Some ''text''))\<lparr>input_template := Some ''Input: {{text}}''\<rparr>)
   \<and> str_format no_str_ops [(''input'', ''text'')] ''Input: {{{{{input}}}}}'' = Inr ''Input: {{text}}''
   \<and> \<not> str_contains marker ''Input: {{text}}''
   \<and> (\<exists>s'' r. validate_inputs no_str_ops (skill_with (template_of pieces_default) (Some ''text'')) = Inr s''
          \<and> input_template s'' = Some r \<and> \<not> str_contains marker r)"
proof -
  have t: "template_of pieces_default = ''Input: {{{{{input}}}}}''"
    by (simp add: template_of_def pieces_default_def)
  have p: "list_all plain_piece pieces_default" "list_all input_piece pieces_default"
    "short_opens 0 pieces_default"
    by (simp_all add: pieces_default_def)
  have v: "validate_inputs no_str_ops (skill_with ''Input: {{{{{input}}}}}'' (Some ''text'')) =
        Inr ((skill_with ''Input: {{{{{input}}}}}'' (Some ''text''))\<lparr>input_template := Some ''Input: {{text}}''\<rparr>)"
    by code_simp
  have f: "str_format no_str_ops [(''input'', ''text'')] ''Input: {{{{{input}}}}}'' = Inr ''Input: {{text}}''"
    by code_simp
  have n: "\<not> str_contains marker ''Input: {{text}}''"
    by (simp add: marker_def)
  have it: "input_template (skill_with t f) = Some t" "input_data_field (skill_with t f) = f" for t f
    by (simp_all add: skill_with_def)
  have g: "''text'' \<noteq> []" "CHR ''{'' \<notin> set ''text''"
    by simp_all
  have r: "\<exists>s'' r. validate_inputs no_str_ops (skill_with (template_of pieces_default) (Some ''text'')) = Inr s''
          \<and> input_template s'' = Some r \<and> \<not> str_contains marker r"
    using stored_template_after_construction
      [where ops = no_str_ops and self = "skill_with (template_of pieces_default) (Some ''text'')"
         and ps = pieces_default and g = "''text''"] it p g
    by blast
  show ?thesis
    using t p v f n r by blast
qed

section \<open>Formatting applies to the whole template\<close>




section \<open>Extra fields are the fields outside the system set\<close>



section \<open>Improve changes the instructions only\<close>

text \<open>
  C7. When \<^verbatim>\<open>improve\<close> returns, the skill differs from the skill before the call in its
  instructions only, which are the string the runtime returned as \<^verbatim>\<open>new_instruction\<close>:
  the name, the description, the templates, the input data field, the prediction field and
  the extra fields are the same.
\<close>

theorem improve_changes_instructions_only:
  assumes "improve self error_analysis runtime = (Inr (), self')"
  shows "self' = self\<lparr>instructions := instructions self'\<rparr>
    \<and> name self' = name self
    \<and> description self' = description self
    \<and> input_template self' = input_template self
    \<and> output_template self' = output_template self
    \<and> input_data_field self' = input_data_field self
    \<and> prediction_field self' = prediction_field self
    \<and> subclass_fields self' = subclass_fields self
    \<and> get_extra_fields self' = get_extra_fields self
    \<and> (\<exists>result.
          process_record runtime [(''error_analysis'', PStr error_analysis)]
            improve_instructions (improve_input_template self) improve_output_template
            (get_extra_fields self) = Inr result
          \<and> map_of result ''new_instruction'' = Some (instructions self'))"
proof -
  obtain result v where r: "process_record runtime [(''error_analysis'', PStr error_analysis)]
            improve_instructions (improve_input_template self) improve_output_template
            (get_extra_fields self) = Inr result"
    and m: "map_of result ''new_instruction'' = Some v"
    and s: "self' = self\<lparr>instructions := v\<rparr>"
    using assms by (auto simp: improve_def split: sum.splits option.splits)
  have "get_extra_fields (self\<lparr>instructions := v\<rparr>) = get_extra_fields self"
    by (simp add: get_extra_fields_def model_dump_exclude_def model_dump_def system_fields_def)
  then show ?thesis
    unfolding s using r m by simp
qed

theorem improve_changes_instructions_only_witness:
  "improve sentiment_skill ''Text 1 was mislabelled.'' answering_runtime =
     (Inr (), sentiment_skill\<lparr>instructions := ''Answer pos or neg.''\<rparr>)
   \<and> name (sentiment_skill\<lparr>instructions := ''Answer pos or neg.''\<rparr>) = name sentiment_skill
   \<and> get_extra_fields (sentiment_skill\<lparr>instructions := ''Answer pos or neg.''\<rparr>) =
        get_extra_fields sentiment_skill"
proof -
  have i: "improve sentiment_skill ''Text 1 was mislabelled.'' answering_runtime =
     (Inr (), sentiment_skill\<lparr>instructions := ''Answer pos or neg.''\<rparr>)"
    by (simp add: improve_def answering_runtime_def)
  from improve_changes_instructions_only [OF i] i show ?thesis
    by blast
qed

section \<open>A failing backend leaves the skill unchanged\<close>

text \<open>
  C8. When the call to the runtime that \<^verbatim>\<open>improve\<close> makes raises, \<^verbatim>\<open>improve\<close> ends with
  that exception and the skill is as it was before the call, instructions included: the
  assignment to \<^verbatim>\<open>self.instructions\<close> comes after the runtime has answered.
\<close>

theorem improve_failure_leaves_skill_unchanged:
  assumes "process_record runtime [(''error_analysis'', PStr error_analysis)]
            improve_instructions (improve_input_template self) improve_output_template
            (get_extra_fields self) = Inl e"
  shows "improve self error_analysis runtime = (Inl e, self)
    \<and> instructions (snd (improve self error_analysis runtime)) = instructions self"
  using assms by (simp add: improve_def)

theorem improve_failure_leaves_skill_unchanged_witness:
  "process_record failing_runtime [(''error_analysis'', PStr ''Text 1 was mislabelled.'')]
      improve_instructions (improve_input_template sentiment_skill) improve_output_template
      (get_extra_fields sentiment_skill) = Inl (RuntimeFailure ''backend down'')
   \<and> improve sentiment_skill ''Text 1 was mislabelled.'' failing_runtime =
       (Inl (RuntimeFailure ''backend down''), sentiment_skill)"
proof -
  have f: "process_record failing_runtime [(''error_analysis'', PStr ''Text 1 was mislabelled.'')]
      improve_instructions (improve_input_template sentiment_skill) improve_output_template
      (get_extra_fields sentiment_skill) = Inl (RuntimeFailure ''backend down'')"
    by (simp add: failing_runtime_def)
  from improve_failure_leaves_skill_unchanged [OF f] f show ?thesis
    by blast
qed

section \<open>Applying a skill to a dataset without batches\<close>

text \<open>
  C2. When the batch iterator of the dataset yields no batch, \<^verbatim>\<open>apply\<close> returns a frame
  without rows whose columns are the columns of the dataset's frame followed by the name
  of the skill, and calls no runtime: the store is as before. For the columns
  \<^verbatim>\<open>["text"]\<close> and the skill \<^verbatim>\<open>sentiment\<close> the result has the columns
  \<^verbatim>\<open>["text", "sentiment"]\<close>.
\<close>

theorem apply_on_empty_dataset:
  assumes "batch_iterator dataset = []"
  shows "\<exists>result.
           apply_skill InternalDataFrameConcat pd self dataset runtime st = (Inr result, st)
           \<and> columns result = columns (st (df dataset)) @ [name self]
           \<and> index result = []
           \<and> data result = map (\<lambda>c. []) (columns result)"
  using assms by (simp add: apply_skill_def DataFrame_of_columns_def)

theorem apply_on_empty_dataset_witness:
  "batch_iterator (DataFrameDataset [] 0) = []
   \<and> columns (text_store 0) = [''text'']
   \<and> name sentiment_skill = ''sentiment''
   \<and> (\<exists>result.
        apply_frame no_concat no_pandas_ops [] sentiment_skill 0 fresh_runtime text_store
          = (Inr result, text_store)
        \<and> columns result = [''text'', ''sentiment'']
        \<and> index result = []
        \<and> data result = [[], []])"
proof -
  have b: "batch_iterator (DataFrameDataset [] 0) = []"
    and d: "df (DataFrameDataset [] 0) = 0"
    by (simp_all add: DataFrameDataset_def)
  have c: "columns (text_store 0) = [''text'']"
    by (simp add: text_store_def text_frame_def)
  have n: "name sentiment_skill = ''sentiment''"
    by (simp add: sentiment_skill_def)
  from apply_on_empty_dataset
    [OF b, of no_concat no_pandas_ops sentiment_skill fresh_runtime text_store]
  obtain result where
    r: "apply_skill no_concat no_pandas_ops sentiment_skill (DataFrameDataset [] 0)
          fresh_runtime text_store = (Inr result, text_store)"
      "columns result = columns (text_store (df (DataFrameDataset [] 0))) @ [name sentiment_skill]"
      "index result = []" "data result = map (\<lambda>c. []) (columns result)"
    by blast
  have "columns result = [''text'', ''sentiment'']"
    using r(2) by (simp add: d c n)
  moreover from this have "data result = [[], []]"
    using r(4) by simp
  ultimately show ?thesis
    using b c n r(1,3) by (auto simp: apply_frame_def)
qed

section \<open>Executing a skill on a batch\<close>

text \<open>
  C4, as stated: for every batch and skill, \<^verbatim>\<open>__call__\<close> does not change the batch it is
  given. It fails on the code when the runtime returns the batch object itself:
  \<^verbatim>\<open>rename(..., inplace=True)\<close> then renames the prediction column of the batch. Here
  the batch has the columns \<^verbatim>\<open>text\<close> and \<^verbatim>\<open>predictions\<close> before the call and \<^verbatim>\<open>text\<close>
  and \<^verbatim>\<open>sentiment\<close> after it.
\<close>

theorem call_mutates_aliased_batch_counterexample:
  "columns (labelled_store 0) = [''text'', ''predictions'']
   \<and> process_batch answering_runtime labelled_store 0 (input_template sentiment_skill)
        (output_template sentiment_skill) (instructions sentiment_skill)
        (get_extra_fields sentiment_skill) = (Inr 0, labelled_store)
   \<and> fst (skill_call no_pandas_ops sentiment_skill labelled_store 0 answering_runtime) =
        Inr \<lparr>columns = [''text'', ''sentiment''], index = [0, 1],
             data = [[PStr ''great!'', PStr ''awful''], [PStr ''pos'', PStr ''neg'']]\<rparr>
   \<and> columns (snd (skill_call no_pandas_ops sentiment_skill labelled_store 0 answering_runtime) 0) =
        [''text'', ''sentiment'']
   \<and> snd (skill_call no_pandas_ops sentiment_skill labelled_store 0 answering_runtime) 0
        \<noteq> labelled_store 0"
  by (simp add: skill_call_def answering_runtime_def labelled_store_def labelled_frame_def
      sentiment_skill_def rename_columns_def getitem_columns_def matching_columns_def
      setitem_columns_def check_key_length_def frame_series_def set_item_def
      ensure_valid_index_def reindex_for_setitem_def set_item_mgr_def Let_def)

text \<open>
  C4, amended. Let the runtime return a frame that is another object than the batch and
  leave the batch as it was. Then the batch is the same after the call, and the only
  change to the store is the frame of the runtime, whose prediction column is renamed to
  the name of the skill. Let moreover the frames be well-formed, the runtime keep the
  number of rows, and the column labels of the batch be unique, or those of the renamed
  frame of the runtime. When the renamed labels of the runtime repeat, the call raises
  \<^verbatim>\<open>ValueError('Columns must be same length as key')\<close>. A returned frame has the row labels
  of the batch in their order and the columns of the batch followed by the new columns of
  the runtime; every column of the batch whose label the runtime did not return stands
  where it stood, with its values; and the column under every label the runtime returned
  has the values of the runtime's column aligned with the row labels of the batch, which
  are the runtime's values themselves when the runtime kept the row labels: a column of
  the batch with such a label is overwritten. The call returns a frame when the runtime
  kept the row labels and no label repeats in either frame. For a batch with the columns
  \<^verbatim>\<open>text\<close> and \<^verbatim>\<open>sentiment\<close> and a runtime that predicts \<^verbatim>\<open>pos\<close> and \<^verbatim>\<open>neg\<close>, the
  returned frame has these predictions in the column \<^verbatim>\<open>sentiment\<close> and the batch keeps
  its own; for a runtime that returns the columns \<^verbatim>\<open>predictions\<close> and \<^verbatim>\<open>sentiment\<close>, the
  call raises the \<^verbatim>\<open>ValueError\<close> and the batch is as before.
\<close>

theorem call_leaves_batch_and_adds_predictions:
  assumes pb: "process_batch runtime st input (input_template self) (output_template self)
                 (instructions self) (get_extra_fields self) = (Inr rp, st1)"
    and fresh: "rp \<noteq> input"
    and untouched: "st1 input = st input"
  shows "snd (skill_call pd self st input runtime) input = st input
    \<and> snd (skill_call pd self st input runtime) =
        st1(rp := rename_columns (prediction_field self) (name self) (st1 rp))
    \<and> (wf_frame (st input) \<and> wf_frame (st1 rp)
        \<and> length (index (st1 rp)) = length (index (st input))
        \<and> (distinct (columns (st input))
            \<or> distinct (columns (rename_columns (prediction_field self) (name self) (st1 rp))))
        \<longrightarrow>
        (\<forall>out. fst (skill_call pd self st input runtime) = Inr out \<longrightarrow>
          distinct (columns (rename_columns (prediction_field self) (name self) (st1 rp)))
          \<and> index out = index (st input)
          \<and> columns out =
              columns (st input)
              @ filter (\<lambda>k. k \<notin> set (columns (st input)))
                  (columns (rename_columns (prediction_field self) (name self) (st1 rp)))
          \<and> (\<forall>j < length (columns (st input)).
                columns (st input) ! j
                  \<notin> set (columns (rename_columns (prediction_field self) (name self) (st1 rp)))
                \<longrightarrow> data out ! j = data (st input) ! j)
          \<and> (\<forall>i < length (columns (st1 rp)).
                \<exists>vals. reindex_for_setitem pd (zip (index (st1 rp)) (data (st1 rp) ! i)) (st input)
                         = Inr vals
                  \<and> column_of out
                       (columns (rename_columns (prediction_field self) (name self) (st1 rp)) ! i)
                     = Some vals)
          \<and> (index (st1 rp) = index (st input) \<longrightarrow>
                (\<forall>i < length (columns (st1 rp)).
                   column_of out
                     (columns (rename_columns (prediction_field self) (name self) (st1 rp)) ! i)
                   = Some (data (st1 rp) ! i))))
        \<and> (\<not> distinct (columns (rename_columns (prediction_field self) (name self) (st1 rp))) \<longrightarrow>
              fst (skill_call pd self st input runtime) =
                Inl (ValueError ''Columns must be same length as key''))
        \<and> (index (st1 rp) = index (st input)
            \<and> distinct (columns (rename_columns (prediction_field self) (name self) (st1 rp)))
            \<and> distinct (columns (st input)) \<longrightarrow>
              (\<exists>out. fst (skill_call pd self st input runtime) = Inr out)))"
proof (intro conjI impI)
  show s: "snd (skill_call pd self st input runtime) =
        st1(rp := rename_columns (prediction_field self) (name self) (st1 rp))"
    using pb by (rule skill_call_store)
  show "snd (skill_call pd self st input runtime) input = st input"
    unfolding s using fresh untouched by simp
next
  assume a: "wf_frame (st input) \<and> wf_frame (st1 rp)
        \<and> length (index (st1 rp)) = length (index (st input))
        \<and> (distinct (columns (st input))
            \<or> distinct (columns (rename_columns (prediction_field self) (name self) (st1 rp))))"
  then have h: "length (index (st1 rp)) = length (index (st input))"
    "wf_frame (st input)" "wf_frame (st1 rp)"
    "distinct (columns (st input))
      \<or> distinct (columns (rename_columns (prediction_field self) (name self) (st1 rp)))"
    by blast+
  from skill_call_frame [OF pb fresh untouched h, of pd]
  show "\<forall>out. fst (skill_call pd self st input runtime) = Inr out \<longrightarrow>
          distinct (columns (rename_columns (prediction_field self) (name self) (st1 rp)))
          \<and> index out = index (st input)
          \<and> columns out =
              columns (st input)
              @ filter (\<lambda>k. k \<notin> set (columns (st input)))
                  (columns (rename_columns (prediction_field self) (name self) (st1 rp)))
          \<and> (\<forall>j < length (columns (st input)).
                columns (st input) ! j
                  \<notin> set (columns (rename_columns (prediction_field self) (name self) (st1 rp)))
                \<longrightarrow> data out ! j = data (st input) ! j)
          \<and> (\<forall>i < length (columns (st1 rp)).
                \<exists>vals. reindex_for_setitem pd (zip (index (st1 rp)) (data (st1 rp) ! i)) (st input)
                         = Inr vals
                  \<and> column_of out
                       (columns (rename_columns (prediction_field self) (name self) (st1 rp)) ! i)
                     = Some vals)
          \<and> (index (st1 rp) = index (st input) \<longrightarrow>
                (\<forall>i < length (columns (st1 rp)).
                   column_of out
                     (columns (rename_columns (prediction_field self) (name self) (st1 rp)) ! i)
                   = Some (data (st1 rp) ! i)))"
    by blast
  assume "\<not> distinct (columns (rename_columns (prediction_field self) (name self) (st1 rp)))"
  with skill_call_frame [OF pb fresh untouched h, of pd]
  show "fst (skill_call pd self st input runtime) =
                Inl (ValueError ''Columns must be same length as key'')"
    by blast
next
  assume a: "wf_frame (st input) \<and> wf_frame (st1 rp)
        \<and> length (index (st1 rp)) = length (index (st input))
        \<and> (distinct (columns (st input))
            \<or> distinct (columns (rename_columns (prediction_field self) (name self) (st1 rp))))"
  then have h: "length (index (st1 rp)) = length (index (st input))"
    "wf_frame (st input)" "wf_frame (st1 rp)"
    "distinct (columns (st input))
      \<or> distinct (columns (rename_columns (prediction_field self) (name self) (st1 rp)))"
    by blast+
  assume "index (st1 rp) = index (st input)
            \<and> distinct (columns (rename_columns (prediction_field self) (name self) (st1 rp)))
            \<and> distinct (columns (st input))"
  with skill_call_frame [OF pb fresh untouched h, of pd]
  show "\<exists>out. fst (skill_call pd self st input runtime) = Inr out"
    by blast
qed

theorem call_leaves_batch_and_adds_predictions_witness:
  "process_batch fresh_runtime stale_store 0 (input_template sentiment_skill)
        (output_template sentiment_skill) (instructions sentiment_skill)
        (get_extra_fields sentiment_skill) = (Inr 1, stale_store(1 := predictions_frame))
   \<and> (1::nat) \<noteq> 0
   \<and> (stale_store(1 := predictions_frame)) 0 = stale_store 0
   \<and> length (index ((stale_store(1 := predictions_frame)) 1)) = length (index (stale_store 0))
   \<and> wf_frame (stale_store 0) \<and> wf_frame ((stale_store(1 := predictions_frame)) 1)
   \<and> distinct (columns (stale_store 0))
   \<and> stale_store 0 = stale_frame
   \<and> snd (skill_call no_pandas_ops sentiment_skill stale_store 0 fresh_runtime) 0 = stale_store 0
   \<and> fst (skill_call no_pandas_ops sentiment_skill stale_store 0 fresh_runtime) =
        Inr \<lparr>columns = [''text'', ''sentiment''], index = [0, 1],
             data = [[PStr ''great!'', PStr ''awful''], [PStr ''pos'', PStr ''neg'']]\<rparr>
   \<and> process_batch repeating_runtime stale_store 0 (input_template sentiment_skill)
        (output_template sentiment_skill) (instructions sentiment_skill)
        (get_extra_fields sentiment_skill) = (Inr 1, stale_store(1 := repeating_frame))
   \<and> (stale_store(1 := repeating_frame)) 0 = stale_store 0
   \<and> length (index ((stale_store(1 := repeating_frame)) 1)) = length (index (stale_store 0))
   \<and> wf_frame ((stale_store(1 := repeating_frame)) 1)
   \<and> columns (rename_columns (prediction_field sentiment_skill) (name sentiment_skill)
         ((stale_store(1 := repeating_frame)) 1)) = [''sentiment'', ''sentiment'']
   \<and> snd (skill_call no_pandas_ops sentiment_skill stale_store 0 repeating_runtime) 0 = stale_store 0
   \<and> fst (skill_call no_pandas_ops sentiment_skill stale_store 0 repeating_runtime) =
        Inl (ValueError ''Columns must be same length as key'')"
proof -
  have pb: "process_batch fresh_runtime stale_store 0 (input_template sentiment_skill)
        (output_template sentiment_skill) (instructions sentiment_skill)
        (get_extra_fields sentiment_skill) = (Inr 1, stale_store(1 := predictions_frame))"
    by (simp add: fresh_runtime_def)
  have fresh: "(1::nat) \<noteq> 0" by simp
  have untouched: "(stale_store(1 := predictions_frame)) 0 = stale_store 0" by simp
  have nrows: "length (index ((stale_store(1 := predictions_frame)) 1)) = length (index (stale_store 0))"
    by (simp add: stale_store_def stale_frame_def predictions_frame_def)
  have wf: "wf_frame (stale_store 0)" "wf_frame ((stale_store(1 := predictions_frame)) 1)"
    by (simp_all add: wf_frame_def stale_store_def stale_frame_def predictions_frame_def)
  have dist: "distinct (columns (stale_store 0))"
    by (simp add: stale_store_def stale_frame_def)
  have s: "stale_store 0 = stale_frame"
    by (simp add: stale_store_def)
  have out: "fst (skill_call no_pandas_ops sentiment_skill stale_store 0 fresh_runtime) =
        Inr \<lparr>columns = [''text'', ''sentiment''], index = [0, 1],
             data = [[PStr ''great!'', PStr ''awful''], [PStr ''pos'', PStr ''neg'']]\<rparr>"
    by (simp add: skill_call_def fresh_runtime_def stale_store_def stale_frame_def
      predictions_frame_def sentiment_skill_def rename_columns_def getitem_columns_def
      matching_columns_def setitem_columns_def check_key_length_def frame_series_def
      set_item_def ensure_valid_index_def reindex_for_setitem_def set_item_mgr_def Let_def)
  have pb': "process_batch repeating_runtime stale_store 0 (input_template sentiment_skill)
        (output_template sentiment_skill) (instructions sentiment_skill)
        (get_extra_fields sentiment_skill) = (Inr 1, stale_store(1 := repeating_frame))"
    by (simp add: repeating_runtime_def)
  have untouched': "(stale_store(1 := repeating_frame)) 0 = stale_store 0" by simp
  have nrows': "length (index ((stale_store(1 := repeating_frame)) 1)) = length (index (stale_store 0))"
    by (simp add: stale_store_def stale_frame_def repeating_frame_def)
  have wf': "wf_frame ((stale_store(1 := repeating_frame)) 1)"
    by (simp add: wf_frame_def repeating_frame_def)
  have rep: "columns (rename_columns (prediction_field sentiment_skill) (name sentiment_skill)
         ((stale_store(1 := repeating_frame)) 1)) = [''sentiment'', ''sentiment'']"
    by (simp add: rename_columns_def repeating_frame_def sentiment_skill_def)
  from call_leaves_batch_and_adds_predictions [OF pb fresh untouched, of no_pandas_ops]
  have a: "snd (skill_call no_pandas_ops sentiment_skill stale_store 0 fresh_runtime) 0 = stale_store 0"
    by blast
  from call_leaves_batch_and_adds_predictions [OF pb' fresh untouched', of no_pandas_ops]
  have b: "snd (skill_call no_pandas_ops sentiment_skill stale_store 0 repeating_runtime) 0 = stale_store 0"
    by blast
  from call_leaves_batch_and_adds_predictions [OF pb' fresh untouched', of no_pandas_ops]
    wf(1) wf' nrows' dist
  have c: "\<not> distinct (columns (rename_columns (prediction_field sentiment_skill) (name sentiment_skill)
         ((stale_store(1 := repeating_frame)) 1))) \<longrightarrow>
     fst (skill_call no_pandas_ops sentiment_skill stale_store 0 repeating_runtime) =
        Inl (ValueError ''Columns must be same length as key'')"
    by blast
  have "fst (skill_call no_pandas_ops sentiment_skill stale_store 0 repeating_runtime) =
        Inl (ValueError ''Columns must be same length as key'')"
    using c unfolding rep by simp
  with pb fresh untouched nrows wf dist s out a pb' untouched' nrows' wf' rep b show ?thesis
    by blast
qed

section \<open>Sampling the errors\<close>

text \<open>
  C5. The sampling step of \<^verbatim>\<open>analyze\<close> takes \<open>min max_errors n\<close> of the \<open>n\<close> rows of the
  error frame, at positions that differ from one another (without replacement), for every
  bound \<open>max_errors\<close> and every permutation the random state draws; \<^verbatim>\<open>analyze\<close> itself
  has the bound 3. Two errors give two rows, and no error gives no row and no exception.
\<close>

theorem sample_takes_min_rows:
  assumes "distinct (permutation (length (index errors)))"
    and "set (permutation (length (index errors))) = {..<length (index errors)}"
  shows "\<exists>sampled locs.
           sample_errors max_errors permutation errors = Inr sampled
           \<and> sampled = take_rows errors locs
           \<and> length (index sampled) = min max_errors (length (index errors))
           \<and> length locs = min max_errors (length (index errors))
           \<and> distinct locs \<and> set locs \<subseteq> {..<length (index errors)}
           \<and> analyze_sample permutation errors = sample_errors 3 permutation errors"
proof -
  let ?m = "length (index errors)"
  let ?locs = "take (min max_errors ?m) (permutation ?m)"
  have "length (permutation ?m) = ?m"
    using assms distinct_card [of "permutation ?m"] by simp
  then have l: "length ?locs = min max_errors ?m"
    by simp
  have d: "distinct ?locs"
    using assms(1) by simp
  have s: "set ?locs \<subseteq> {..<?m}"
    using assms(2) set_take_subset [of "min max_errors ?m" "permutation ?m"] by simp
  have r: "sample_errors max_errors permutation errors = Inr (take_rows errors ?locs)"
    by (simp add: sample_errors_def DataFrame_sample_def)
  have i: "length (index (take_rows errors ?locs)) = min max_errors ?m"
    using l by (simp add: take_rows_def)
  have a: "analyze_sample permutation errors = sample_errors 3 permutation errors"
    by (simp add: analyze_sample_def MAX_ERRORS_def)
  from r i l d s a show ?thesis by blast
qed

theorem sample_takes_min_rows_witness:
  "distinct (reversed (length (index errors_frame)))
   \<and> set (reversed (length (index errors_frame))) = {..<length (index errors_frame)}
   \<and> length (index errors_frame) = 2
   \<and> analyze_sample reversed errors_frame =
        Inr \<lparr>columns = [''sentiment'', ''ground_truth''], index = [7, 4],
             data = [[PStr ''neg'', PStr ''pos''], [PStr ''pos'', PStr ''neg'']]\<rparr>
   \<and> (\<exists>sampled. analyze_sample reversed errors_frame = Inr sampled \<and> length (index sampled) = 2)
   \<and> distinct (reversed (length (index no_errors_frame)))
   \<and> set (reversed (length (index no_errors_frame))) = {..<length (index no_errors_frame)}
   \<and> (\<exists>sampled. analyze_sample reversed no_errors_frame = Inr sampled \<and> index sampled = [])"
proof -
  have p: "distinct (reversed m)" "set (reversed m) = {..<m}" for m
    by (auto simp: reversed_def)
  have n: "length (index errors_frame) = 2" "length (index no_errors_frame) = 0"
    by (simp_all add: errors_frame_def no_errors_frame_def)
  have e: "analyze_sample reversed errors_frame =
        Inr \<lparr>columns = [''sentiment'', ''ground_truth''], index = [7, 4],
             data = [[PStr ''neg'', PStr ''pos''], [PStr ''pos'', PStr ''neg'']]\<rparr>"
    by code_simp
  from sample_takes_min_rows
    [where permutation = reversed and errors = errors_frame and max_errors = 3, OF p]
  have a: "\<exists>sampled. analyze_sample reversed errors_frame = Inr sampled \<and> length (index sampled) = 2"
    using n(1) by auto
  from sample_takes_min_rows
    [where permutation = reversed and errors = no_errors_frame and max_errors = 3, OF p]
  have b: "\<exists>sampled. analyze_sample reversed no_errors_frame = Inr sampled \<and> index sampled = []"
    using n(2) by auto
  from p n(1) e a b show ?thesis
    by blast
qed

end
